theory Spec2Isabelle
  imports Complex_Main "HOL-Library.Option_ord" "HOL-Library.List_Lexorder" "HOL-Library.Char_ord"
begin

section \<open>KomePa: the catalogue route of src/index.ts\<close>

text \<open>
  The worker has one route, \<^verbatim>\<open>app.get('/')\<close>, and two renderers,
  \<^verbatim>\<open>renderProductList\<close> and \<^verbatim>\<open>renderError\<close>. The route reads the query
  parameters \<^verbatim>\<open>sort\<close>, \<^verbatim>\<open>page\<close> and \<^verbatim>\<open>limit\<close>, counts the rows of the table
  \<^verbatim>\<open>products\<close>, fetches one slice of it and renders the slice.

  Strings are byte strings (UTF-8). The Japanese labels of the templates are written as
  their UTF-8 bytes.
\<close>

subsection \<open>JavaScript numbers\<close>

text \<open>
  A number is a double. Every number of the route is an integer, \<^verbatim>\<open>NaN\<close> or an
  infinity: \<^verbatim>\<open>parseInt\<close> returns an integer, \<^verbatim>\<open>NaN\<close> or an infinity, the row count
  is an integer, and the one division is under \<^verbatim>\<open>Math.ceil\<close>. A double holds every
  integer below \<open>2 ^ 53\<close> in absolute value; a larger one is rounded to 53 significant
  bits, ties to the even one, and to an infinity from \<open>2 ^ 1024\<close> on (\<open>round_double\<close>).
  \<^verbatim>\<open>parseInt\<close> and the product round so. The sums and differences of the route
  (\<^verbatim>\<open>x - 1\<close>, \<^verbatim>\<open>x + 1\<close>, \<^verbatim>\<open>x - 2 + i\<close>, \<^verbatim>\<open>x - 4 + i\<close>) and the ceiling of the
  quotient are exact up to \<open>2 ^ 53\<close> and are left exact beyond. The sign of zero is
  not tracked (\<open>-0\<close> is \<open>Fin 0\<close>): \<open>-0\<close> prints as \<^verbatim>\<open>0\<close>, equals \<open>0\<close> and is bound
  as \<open>0\<close>; it differs only as a divisor, that is for \<^verbatim>\<open>limit=-0\<close>, where the slice
  (\<^verbatim>\<open>LIMIT 0\<close>) is empty.
\<close>

datatype jsnum = Fin int | NaN | PosInf | NegInf

text \<open>\<^verbatim>\<open>a + b\<close>\<close>

fun js_add :: "jsnum \<Rightarrow> jsnum \<Rightarrow> jsnum" where
  "js_add (Fin a) (Fin b) = Fin (a + b)"
| "js_add NaN _ = NaN"
| "js_add _ NaN = NaN"
| "js_add PosInf NegInf = NaN"
| "js_add NegInf PosInf = NaN"
| "js_add PosInf _ = PosInf"
| "js_add NegInf _ = NegInf"
| "js_add _ PosInf = PosInf"
| "js_add _ NegInf = NegInf"

text \<open>\<^verbatim>\<open>-a\<close> and \<^verbatim>\<open>a - b\<close>\<close>

fun js_neg :: "jsnum \<Rightarrow> jsnum" where
  "js_neg (Fin a) = Fin (- a)"
| "js_neg NaN = NaN"
| "js_neg PosInf = NegInf"
| "js_neg NegInf = PosInf"

definition js_sub :: "jsnum \<Rightarrow> jsnum \<Rightarrow> jsnum" where
  "js_sub a b = js_add a (js_neg b)"

text \<open>The sign of a number that is not \<^verbatim>\<open>NaN\<close>: \<open>-1\<close>, \<open>0\<close> or \<open>1\<close>.\<close>

fun js_sign :: "jsnum \<Rightarrow> int" where
  "js_sign (Fin a) = sgn a"
| "js_sign PosInf = 1"
| "js_sign NegInf = - 1"
| "js_sign NaN = 0"

definition inf_of_sign :: "int \<Rightarrow> jsnum" where
  "inf_of_sign s = (if s = 0 then NaN else if 0 < s then PosInf else NegInf)"

text \<open>
  The double nearest to an integer. \<open>bitlen m\<close> is the number of bits of \<open>m\<close>; with
  more than 53 of them the \<open>e\<close> lowest are rounded away, to the nearest multiple of
  \<open>2 ^ e\<close> and, half way between two, to the one whose quotient by \<open>2 ^ e\<close> is even.
\<close>

fun bitlen :: "nat \<Rightarrow> nat" where
  "bitlen n = (if n = 0 then 0 else Suc (bitlen (n div 2)))"

declare bitlen.simps [simp del]

definition round_nat :: "nat \<Rightarrow> nat" where
  "round_nat m =
     (if bitlen m \<le> 53 then m
      else (let e = bitlen m - 53; q = m div 2 ^ e; r = m mod 2 ^ e; half = 2 ^ (e - 1)
            in (if half < r \<or> (r = half \<and> odd q) then q + 1 else q) * 2 ^ e))"

definition round_double :: "int \<Rightarrow> jsnum" where
  "round_double n =
     (let v = round_nat (nat \<bar>n\<bar>)
      in if 2 ^ 1024 \<le> v then inf_of_sign (sgn n) else Fin (sgn n * int v))"

text \<open>
  \<^verbatim>\<open>a * b\<close>: the double nearest to the product; an infinity times zero is \<^verbatim>\<open>NaN\<close>.
\<close>

fun js_mul :: "jsnum \<Rightarrow> jsnum \<Rightarrow> jsnum" where
  "js_mul (Fin a) (Fin b) = round_double (a * b)"
| "js_mul NaN _ = NaN"
| "js_mul _ NaN = NaN"
| "js_mul a b = inf_of_sign (js_sign a * js_sign b)"

text \<open>
  \<^verbatim>\<open>Math.ceil(a / b)\<close>. Between integers with \<open>b \<noteq> 0\<close> the quotient's ceiling is
  \<open>- ((- a) div b)\<close> (\<open>div\<close> rounds down). A non-zero number over zero is an infinity,
  zero over zero and an infinity over an infinity are \<^verbatim>\<open>NaN\<close>, an integer over an
  infinity is zero.
\<close>

fun js_ceil_div :: "jsnum \<Rightarrow> jsnum \<Rightarrow> jsnum" where
  "js_ceil_div (Fin a) (Fin b) =
     (if b = 0 then inf_of_sign (sgn a) else Fin (- ((- a) div b)))"
| "js_ceil_div NaN _ = NaN"
| "js_ceil_div _ NaN = NaN"
| "js_ceil_div (Fin a) _ = Fin 0"
| "js_ceil_div a (Fin b) = inf_of_sign (js_sign a * (if b < 0 then - 1 else 1))"
| "js_ceil_div _ _ = NaN"

text \<open>
  The comparisons: every comparison with \<^verbatim>\<open>NaN\<close> is false, \<^verbatim>\<open>NaN === NaN\<close>
  included.
\<close>

fun js_lt :: "jsnum \<Rightarrow> jsnum \<Rightarrow> bool" where
  "js_lt (Fin a) (Fin b) = (a < b)"
| "js_lt NaN _ = False"
| "js_lt _ NaN = False"
| "js_lt PosInf _ = False"
| "js_lt _ PosInf = True"
| "js_lt NegInf _ = True"
| "js_lt _ NegInf = False"

definition js_gt :: "jsnum \<Rightarrow> jsnum \<Rightarrow> bool" where
  "js_gt a b = js_lt b a"

definition js_eq :: "jsnum \<Rightarrow> jsnum \<Rightarrow> bool" where
  "js_eq a b = (a \<noteq> NaN \<and> a = b)"

definition js_le :: "jsnum \<Rightarrow> jsnum \<Rightarrow> bool" where
  "js_le a b = (js_lt a b \<or> js_eq a b)"

definition js_ge :: "jsnum \<Rightarrow> jsnum \<Rightarrow> bool" where
  "js_ge a b = js_le b a"

text \<open>\<^verbatim>\<open>Math.min(a, b)\<close>: \<^verbatim>\<open>NaN\<close> when either is.\<close>

definition js_min :: "jsnum \<Rightarrow> jsnum \<Rightarrow> jsnum" where
  "js_min a b = (if a = NaN \<or> b = NaN then NaN else if js_lt b a then b else a)"

text \<open>\<^verbatim>\<open>x || 0\<close> on a number: zero and \<^verbatim>\<open>NaN\<close> are falsy.\<close>

definition js_or_zero :: "jsnum \<Rightarrow> jsnum" where
  "js_or_zero x = (if x = Fin 0 \<or> x = NaN then Fin 0 else x)"

subsection \<open>Numbers to strings\<close>

definition digit_char :: "nat \<Rightarrow> char" where
  "digit_char d = ''0123456789'' ! (d mod 10)"

fun digits_of :: "nat \<Rightarrow> string" where
  "digits_of n = (if n < 10 then [digit_char n] else digits_of (n div 10) @ [digit_char (n mod 10)])"

declare digits_of.simps [simp del]

text \<open>
  \<^verbatim>\<open>String(x)\<close>, which is what a template writes for a number: the decimal digits
  (from \<open>10 ^ 21\<close> on JavaScript writes exponent notation, which is not modelled).
\<close>

fun js_string :: "jsnum \<Rightarrow> string" where
  "js_string (Fin a) = (if a < 0 then CHR ''-'' # digits_of (nat (- a)) else digits_of (nat a))"
| "js_string NaN = ''NaN''"
| "js_string PosInf = ''Infinity''"
| "js_string NegInf = ''-Infinity''"

text \<open>
  \<^verbatim>\<open>n.toLocaleString()\<close> in the worker's locale (en-US): the digits in groups of three,
  separated by commas.
\<close>

fun group3 :: "nat \<Rightarrow> string" where
  "group3 n =
     (if n < 1000 then digits_of n
      else group3 (n div 1000) @ '','' @
        [digit_char (n div 100 mod 10), digit_char (n div 10 mod 10), digit_char (n mod 10)])"

declare group3.simps [simp del]

definition toLocaleString :: "int \<Rightarrow> string" where
  "toLocaleString a = (if a < 0 then CHR ''-'' # group3 (nat (- a)) else group3 (nat a))"

subsection \<open>parseInt\<close>

text \<open>
  \<^verbatim>\<open>parseInt(s)\<close> with no radix: leading white space is skipped, then an optional
  sign is read, then \<^verbatim>\<open>0x\<close> or \<^verbatim>\<open>0X\<close> switches to radix 16, then the longest run
  of digits of the radix is read. No digit at all gives \<^verbatim>\<open>NaN\<close>; what follows the
  digits is ignored; the result is the double nearest to the integer read (ECMAScript
  lets an implementation approximate the digits after the 20th significant one; the
  model does not).

  White space is the \<^verbatim>\<open>WhiteSpace\<close> and \<^verbatim>\<open>LineTerminator\<close> of ECMAScript: TAB, LF,
  VT, FF, CR, SP, U+00A0, U+1680, U+2000 to U+200A, U+2028, U+2029, U+202F, U+205F,
  U+3000 and U+FEFF, here in UTF-8.
\<close>

definition js_spaces :: "string list" where
  "js_spaces =
     [[CHR 0x09], [CHR 0x0A], [CHR 0x0B], [CHR 0x0C], [CHR 0x0D], [CHR 0x20],
      [CHR 0xC2, CHR 0xA0], [CHR 0xE1, CHR 0x9A, CHR 0x80],
      [CHR 0xE2, CHR 0x80, CHR 0x80], [CHR 0xE2, CHR 0x80, CHR 0x81],
      [CHR 0xE2, CHR 0x80, CHR 0x82], [CHR 0xE2, CHR 0x80, CHR 0x83],
      [CHR 0xE2, CHR 0x80, CHR 0x84], [CHR 0xE2, CHR 0x80, CHR 0x85],
      [CHR 0xE2, CHR 0x80, CHR 0x86], [CHR 0xE2, CHR 0x80, CHR 0x87],
      [CHR 0xE2, CHR 0x80, CHR 0x88], [CHR 0xE2, CHR 0x80, CHR 0x89],
      [CHR 0xE2, CHR 0x80, CHR 0x8A], [CHR 0xE2, CHR 0x80, CHR 0xA8],
      [CHR 0xE2, CHR 0x80, CHR 0xA9], [CHR 0xE2, CHR 0x80, CHR 0xAF],
      [CHR 0xE2, CHR 0x81, CHR 0x9F], [CHR 0xE3, CHR 0x80, CHR 0x80],
      [CHR 0xEF, CHR 0xBB, CHR 0xBF]]"

text \<open>The length in bytes of the white-space character a string starts with, or 0.\<close>

definition space_prefix :: "string \<Rightarrow> nat" where
  "space_prefix s =
     (case filter (\<lambda>w. take (length w) s = w) js_spaces of [] \<Rightarrow> 0 | w # ws \<Rightarrow> length w)"

fun skip_space :: "string \<Rightarrow> string" where
  "skip_space [] = []"
| "skip_space (c # s) =
     (if space_prefix (c # s) = 0 then c # s
      else skip_space (drop (space_prefix (c # s) - 1) s))"

declare skip_space.simps [simp del]

definition digit_val :: "char \<Rightarrow> nat option" where
  "digit_val c =
     (let k = (of_char c :: nat) in
      if 48 \<le> k \<and> k \<le> 57 then Some (k - 48)
      else if 97 \<le> k \<and> k \<le> 122 then Some (k - 87)
      else if 65 \<le> k \<and> k \<le> 90 then Some (k - 55)
      else None)"

definition in_radix :: "nat \<Rightarrow> char \<Rightarrow> bool" where
  "in_radix r c = (case digit_val c of None \<Rightarrow> False | Some v \<Rightarrow> v < r)"

definition radix_value :: "nat \<Rightarrow> string \<Rightarrow> nat" where
  "radix_value r ds = foldl (\<lambda>acc c. acc * r + the (digit_val c)) 0 ds"

definition strip_sign :: "string \<Rightarrow> int \<times> string" where
  "strip_sign s =
     (case s of
        [] \<Rightarrow> (1, [])
      | c # rest \<Rightarrow>
          if c = CHR ''-'' then (- 1, rest)
          else if c = CHR ''+'' then (1, rest)
          else (1, s))"

definition strip_hex_prefix :: "string \<Rightarrow> nat \<times> string" where
  "strip_hex_prefix s =
     (if take 2 s = ''0x'' \<or> take 2 s = ''0X'' then (16, drop 2 s) else (10, s))"

definition parseInt :: "string \<Rightarrow> jsnum" where
  "parseInt s =
     (let (sign, s1) = strip_sign (skip_space s);
          (radix, s2) = strip_hex_prefix s1;
          ds = takeWhile (in_radix radix) s2
      in if ds = [] then NaN else round_double (sign * int (radix_value radix ds)))"

subsection \<open>Products and the store\<close>

text \<open>
  A row of the table \<^verbatim>\<open>products\<close> (schema/schema.sql). The columns declared
  \<^verbatim>\<open>NOT NULL\<close> or \<^verbatim>\<open>PRIMARY KEY\<close> are plain values; every other column may hold
  \<^verbatim>\<open>NULL\<close>, also \<^verbatim>\<open>price INTEGER\<close>. (The interface \<^verbatim>\<open>Product\<close> of index.ts
  types every field as present; the template tests \<^verbatim>\<open>image_url\<close> and
  \<^verbatim>\<open>affiliate_url\<close> for absence all the same.) The field \<^verbatim>\<open>id\<close> is \<open>product_id\<close>
  here.
\<close>

record product =
  product_id :: string
  name :: string
  price :: "int option"
  product_url :: string
  affiliate_url :: "string option"
  image_url :: "string option"
  site_name :: "string option"
  last_scraped_at :: "string option"
  created_at :: "string option"
  updated_at :: "string option"

text \<open>What a statement of the route can throw.\<close>

datatype exn = StoreError string | TypeError string

text \<open>
  The binding \<^verbatim>\<open>c.env.DB\<close>, as far as the route uses it:
  \<^item> \<open>first_count\<close> is
    \<^verbatim>\<open>DB.prepare('SELECT COUNT(*) as total FROM products').first()\<close>: it throws, or
    gives \<^verbatim>\<open>null\<close> (\<open>None\<close>), or a row whose \<^verbatim>\<open>total\<close> is a number;
  \<^item> \<open>all_slice orderBy limit offset\<close> is
    \<^verbatim>\<open>DB.prepare(`SELECT * FROM products ORDER BY ${orderBy} LIMIT ? OFFSET ?`).bind(limit, offset).all()\<close>:
    it throws, or gives a result whose \<^verbatim>\<open>results\<close> is a list of rows or is missing.
\<close>

record store =
  first_count :: "exn + jsnum option"
  all_slice :: "string \<Rightarrow> jsnum \<Rightarrow> jsnum \<Rightarrow> exn + product list option"

text \<open>
  Modelled from the spec: the store itself (Cloudflare D1, an SQLite database) is not part
  of the repository; section 6 of the spec gives its interface, \<^verbatim>\<open>count\<close> and
  \<^verbatim>\<open>fetchSlice(orderBy, limit, offset)\<close>, and the two SQL statements are in
  index.ts. \<open>d1_table rows\<close> answers them over the rows of the table, as SQLite does:
  \<^verbatim>\<open>COUNT(*)\<close> is the number of rows; \<^verbatim>\<open>ORDER BY\<close> sorts (\<^verbatim>\<open>NULL\<close> is the
  least value; the order of rows with equal keys is the engine's choice, here that of a
  scan of the column's index, backwards for \<^verbatim>\<open>DESC\<close>); \<^verbatim>\<open>OFFSET k\<close> skips
  \<open>k\<close> rows (none when \<open>k\<close> is negative); \<^verbatim>\<open>LIMIT n\<close> keeps \<open>n\<close> rows (all when
  \<open>n\<close> is negative); a bound that is not an integer of 64 bits is an error.
\<close>

definition in_int64 :: "int \<Rightarrow> bool" where
  "in_int64 n = (- (2 ^ 63) \<le> n \<and> n < 2 ^ 63)"

definition order_rows :: "string \<Rightarrow> product list \<Rightarrow> product list option" where
  "order_rows ob rows =
     (if ob = ''price ASC'' then Some (sort_key price rows)
      else if ob = ''price DESC'' then Some (rev (sort_key price rows))
      else if ob = ''updated_at DESC'' then Some (rev (sort_key updated_at rows))
      else None)"

definition limit_offset :: "int \<Rightarrow> int \<Rightarrow> 'a list \<Rightarrow> 'a list" where
  "limit_offset n k xs = (if n < 0 then drop (nat k) xs else take (nat n) (drop (nat k) xs))"

definition d1_table :: "product list \<Rightarrow> store" where
  "d1_table rows =
     \<lparr> first_count = Inr (Some (Fin (int (length rows)))),
       all_slice = (\<lambda>ob lim off.
         case order_rows ob rows of
           None \<Rightarrow> Inl (StoreError ''SQL error'')
         | Some ordered \<Rightarrow>
             (case (lim, off) of
                (Fin n, Fin k) \<Rightarrow>
                  if in_int64 n \<and> in_int64 k then Inr (Some (limit_offset n k ordered))
                  else Inl (StoreError ''integer out of range'')
              | _ \<Rightarrow> Inl (StoreError ''datatype mismatch''))) \<rparr>"

subsection \<open>The request: lines 26 to 44 of index.ts\<close>

text \<open>
  \<^verbatim>\<open>c.req.query()\<close> is a map from the parameters present in the URL to their
  (decoded) values. The destructuring
  \<^verbatim>\<open>const { sort = 'price_asc', page = '1', limit = '20' } = c.req.query()\<close>
  takes a default for a parameter that is absent, and only then.
\<close>

type_synonym query = "string \<rightharpoonup> string"

definition param :: "query \<Rightarrow> string \<Rightarrow> string \<Rightarrow> string" where
  "param q k dflt = (case q k of None \<Rightarrow> dflt | Some v \<Rightarrow> v)"

text \<open>The \<^verbatim>\<open>switch (sort)\<close>.\<close>

definition resolve_order :: "string \<Rightarrow> string" where
  "resolve_order s =
     (if s = ''price_desc'' then ''price DESC''
      else if s = ''updated_desc'' then ''updated_at DESC''
      else ''price ASC'')"

text \<open>The constants of the route before its \<^verbatim>\<open>try\<close>; \<open>sort_tok\<close> is \<^verbatim>\<open>sort\<close>.\<close>

record request =
  sort_tok :: string
  pageNum :: jsnum
  limitNum :: jsnum
  offset :: jsnum
  orderBy :: string

definition parse_request :: "query \<Rightarrow> request" where
  "parse_request q =
     (let sort_s = param q ''sort'' ''price_asc'';
          page_s = param q ''page'' ''1'';
          limit_s = param q ''limit'' ''20'';
          pn = parseInt page_s;
          ln = parseInt limit_s
      in \<lparr> sort_tok = sort_s, pageNum = pn, limitNum = ln,
           offset = js_mul (js_sub pn (Fin 1)) ln,
           orderBy = resolve_order sort_s \<rparr>)"

subsection \<open>The page of records: lines 47 to 66\<close>

text \<open>
  The second argument of \<^verbatim>\<open>renderProductList\<close>; \<open>sort_of\<close> is its field
  \<^verbatim>\<open>sort\<close> and \<open>limit_of\<close> its field \<^verbatim>\<open>limit\<close>.
\<close>

record pagination =
  currentPage :: jsnum
  totalPages :: jsnum
  totalProducts :: jsnum
  sort_of :: string
  limit_of :: jsnum

text \<open>
  Lines 48 to 50: \<^verbatim>\<open>countResult?.total || 0\<close> and
  \<^verbatim>\<open>Math.ceil(totalProducts / limitNum)\<close>. The result is (totalProducts, totalPages).
\<close>

definition count_totals :: "store \<Rightarrow> jsnum \<Rightarrow> exn + (jsnum \<times> jsnum)" where
  "count_totals st lnum =
     (case first_count st of
        Inl e \<Rightarrow> Inl e
      | Inr countResult \<Rightarrow>
          (let n_products = (case countResult of None \<Rightarrow> Fin 0 | Some t \<Rightarrow> js_or_zero t)
           in Inr (n_products, js_ceil_div n_products lnum)))"

text \<open>
  Lines 48 to 66: the count, then the slice (not asked for when the count has thrown),
  then the arguments of \<^verbatim>\<open>renderProductList\<close>: \<^verbatim>\<open>products.results || []\<close> and the
  pagination object.
\<close>

definition fetch_page :: "store \<Rightarrow> request \<Rightarrow> exn + (product list \<times> pagination)" where
  "fetch_page st r =
     (case count_totals st (limitNum r) of
        Inl e \<Rightarrow> Inl e
      | Inr (n_products, n_pages) \<Rightarrow>
          (case all_slice st (orderBy r) (limitNum r) (offset r) of
             Inl e \<Rightarrow> Inl e
           | Inr results \<Rightarrow>
               Inr (case results of None \<Rightarrow> [] | Some ps \<Rightarrow> ps,
                    \<lparr> currentPage = pageNum r, totalPages = n_pages,
                      totalProducts = n_products, sort_of = sort_tok r,
                      limit_of = limitNum r \<rparr>)))"

subsection \<open>Documents\<close>

text \<open>
  A document is the tree a browser reads from the markup: an element has a tag, its
  attributes and its children. The helper \<^verbatim>\<open>html\<close> of hono escapes every string it
  interpolates and the browser undoes the escaping, so a text or an attribute value of
  the tree is the interpolated string itself; a number is written by \<^verbatim>\<open>String\<close>;
  \<^verbatim>\<open>null\<close> and \<^verbatim>\<open>''\<close> write nothing. White space between elements and around a
  text is left out, and so is the text of the two style sheets, which holds no
  interpolation.
\<close>

datatype node = Text string | Elem string "(string \<times> string) list" "node list"

type_synonym document = node

fun attr :: "string \<Rightarrow> node \<Rightarrow> string option" where
  "attr k (Elem t as cs) = map_of as k"
| "attr k (Text s) = None"

fun children :: "node \<Rightarrow> node list" where
  "children (Elem t as cs) = cs"
| "children (Text s) = []"

text \<open>The elements of a document with a given class, and with a given tag, in document order.\<close>

fun by_class :: "string \<Rightarrow> node \<Rightarrow> node list" where
  "by_class c (Text s) = []"
| "by_class c (Elem t as cs) =
     (if map_of as ''class'' = Some c then [Elem t as cs] else []) @ concat (map (by_class c) cs)"

fun by_tag :: "string \<Rightarrow> node \<Rightarrow> node list" where
  "by_tag g (Text s) = []"
| "by_tag g (Elem t as cs) =
     (if t = g then [Elem t as cs] else []) @ concat (map (by_tag g) cs)"

subsection \<open>The labels of the templates\<close>

text \<open>The title of the catalogue.\<close>

definition title_catalog :: string where
  "title_catalog =
     [CHR 0xE3, CHR 0x81, CHR 0x8A, CHR 0xE7, CHR 0xB1, CHR 0xB3, CHR 0xE4, CHR 0xBE, CHR 0xA1,
      CHR 0xE6, CHR 0xA0, CHR 0xBC, CHR 0xE6, CHR 0xAF, CHR 0x94, CHR 0xE8, CHR 0xBC, CHR 0x83] @ '' - KomePa''"

text \<open>Its heading.\<close>

definition heading_catalog :: string where
  "heading_catalog =
     [CHR 0xF0, CHR 0x9F, CHR 0x8C, CHR 0xBE] @ '' '' @ [CHR 0xE3, CHR 0x81, CHR 0x8A, CHR 0xE7, CHR 0xB1, CHR 0xB3, CHR 0xE4, CHR 0xBE, CHR 0xA1,
      CHR 0xE6, CHR 0xA0, CHR 0xBC, CHR 0xE6, CHR 0xAF, CHR 0x94, CHR 0xE8, CHR 0xBC, CHR 0x83] @ '' - KomePa''"

text \<open>The line under the heading.\<close>

definition lead_catalog :: string where
  "lead_catalog =
     [CHR 0xE8, CHR 0xA4, CHR 0x87, CHR 0xE6, CHR 0x95, CHR 0xB0, CHR 0xE3, CHR 0x81, CHR 0xAE] @ ''EC'' @ [CHR 0xE3, CHR 0x82, CHR 0xB5, CHR 0xE3, CHR 0x82, CHR 0xA4, CHR 0xE3, CHR 0x83, CHR 0x88,
      CHR 0xE3, CHR 0x81, CHR 0x8B, CHR 0xE3, CHR 0x82, CHR 0x89, CHR 0xE3, CHR 0x81, CHR 0x8A,
      CHR 0xE7, CHR 0xB1, CHR 0xB3, CHR 0xE3, CHR 0x81, CHR 0xAE, CHR 0xE4, CHR 0xBE, CHR 0xA1,
      CHR 0xE6, CHR 0xA0, CHR 0xBC, CHR 0xE3, CHR 0x82, CHR 0x92, CHR 0xE6, CHR 0xAF, CHR 0x94,
      CHR 0xE8, CHR 0xBC, CHR 0x83, CHR 0xE3, CHR 0x81, CHR 0xA7, CHR 0xE3, CHR 0x81, CHR 0x8D,
      CHR 0xE3, CHR 0x81, CHR 0xBE, CHR 0xE3, CHR 0x81, CHR 0x99]"

text \<open>The summary line, before the total.\<close>

definition sum_all :: string where
  "sum_all =
     [CHR 0xE5, CHR 0x85, CHR 0xA8]"

text \<open>The summary line, between the total and the range.\<close>

definition sum_of :: string where
  "sum_of =
     [CHR 0xE4, CHR 0xBB, CHR 0xB6, CHR 0xE4, CHR 0xB8, CHR 0xAD] @ '' ''"

text \<open>The summary line, after the range.\<close>

definition sum_shown :: string where
  "sum_shown =
     [CHR 0xE4, CHR 0xBB, CHR 0xB6, CHR 0xE3, CHR 0x82, CHR 0x92, CHR 0xE8, CHR 0xA1, CHR 0xA8,
      CHR 0xE7, CHR 0xA4, CHR 0xBA]"

text \<open>The option price_asc.\<close>

definition opt_price_asc :: string where
  "opt_price_asc =
     [CHR 0xE4, CHR 0xBE, CHR 0xA1, CHR 0xE6, CHR 0xA0, CHR 0xBC, CHR 0xE3, CHR 0x81, CHR 0x8C,
      CHR 0xE5, CHR 0xAE, CHR 0x89, CHR 0xE3, CHR 0x81, CHR 0x84, CHR 0xE9, CHR 0xA0, CHR 0x86]"

text \<open>The option price_desc.\<close>

definition opt_price_desc :: string where
  "opt_price_desc =
     [CHR 0xE4, CHR 0xBE, CHR 0xA1, CHR 0xE6, CHR 0xA0, CHR 0xBC, CHR 0xE3, CHR 0x81, CHR 0x8C,
      CHR 0xE9, CHR 0xAB, CHR 0x98, CHR 0xE3, CHR 0x81, CHR 0x84, CHR 0xE9, CHR 0xA0, CHR 0x86]"

text \<open>The option updated_desc.\<close>

definition opt_updated_desc :: string where
  "opt_updated_desc =
     [CHR 0xE6, CHR 0x9B, CHR 0xB4, CHR 0xE6, CHR 0x96, CHR 0xB0, CHR 0xE6, CHR 0x97, CHR 0xA5,
      CHR 0xE3, CHR 0x81, CHR 0x8C, CHR 0xE6, CHR 0x96, CHR 0xB0, CHR 0xE3, CHR 0x81, CHR 0x97,
      CHR 0xE3, CHR 0x81, CHR 0x84, CHR 0xE9, CHR 0xA0, CHR 0x86]"

text \<open>The link of a card.\<close>

definition buy_label :: string where
  "buy_label =
     [CHR 0xE8, CHR 0xA9, CHR 0xB3, CHR 0xE7, CHR 0xB4, CHR 0xB0, CHR 0xE3, CHR 0x82, CHR 0x92,
      CHR 0xE8, CHR 0xA6, CHR 0x8B, CHR 0xE3, CHR 0x82, CHR 0x8B]"

text \<open>The yen sign.\<close>

definition yen :: string where
  "yen =
     [CHR 0xC2, CHR 0xA5]"

text \<open>Previous.\<close>

definition prev_label :: string where
  "prev_label =
     [CHR 0xE5, CHR 0x89, CHR 0x8D, CHR 0xE3, CHR 0x81, CHR 0xB8]"

text \<open>Next.\<close>

definition next_label :: string where
  "next_label =
     [CHR 0xE6, CHR 0xAC, CHR 0xA1, CHR 0xE3, CHR 0x81, CHR 0xB8]"

text \<open>The heading of the empty state.\<close>

definition none_heading :: string where
  "none_heading =
     [CHR 0xE5, CHR 0x95, CHR 0x86, CHR 0xE5, CHR 0x93, CHR 0x81, CHR 0xE3, CHR 0x81, CHR 0x8C,
      CHR 0xE8, CHR 0xA6, CHR 0x8B, CHR 0xE3, CHR 0x81, CHR 0xA4, CHR 0xE3, CHR 0x81, CHR 0x8B,
      CHR 0xE3, CHR 0x82, CHR 0x8A, CHR 0xE3, CHR 0x81, CHR 0xBE, CHR 0xE3, CHR 0x81, CHR 0x9B,
      CHR 0xE3, CHR 0x82, CHR 0x93, CHR 0xE3, CHR 0x81, CHR 0xA7, CHR 0xE3, CHR 0x81, CHR 0x97,
      CHR 0xE3, CHR 0x81, CHR 0x9F]"

text \<open>The text of the empty state.\<close>

definition none_text :: string where
  "none_text =
     [CHR 0xE3, CHR 0x83, CHR 0x87, CHR 0xE3, CHR 0x83, CHR 0xBC, CHR 0xE3, CHR 0x82, CHR 0xBF,
      CHR 0xE3, CHR 0x83, CHR 0x99, CHR 0xE3, CHR 0x83, CHR 0xBC, CHR 0xE3, CHR 0x82, CHR 0xB9,
      CHR 0xE3, CHR 0x81, CHR 0xAB, CHR 0xE5, CHR 0x95, CHR 0x86, CHR 0xE5, CHR 0x93, CHR 0x81,
      CHR 0xE6, CHR 0x83, CHR 0x85, CHR 0xE5, CHR 0xA0, CHR 0xB1, CHR 0xE3, CHR 0x81, CHR 0x8C,
      CHR 0xE3, CHR 0x81, CHR 0x82, CHR 0xE3, CHR 0x82, CHR 0x8A, CHR 0xE3, CHR 0x81, CHR 0xBE,
      CHR 0xE3, CHR 0x81, CHR 0x9B, CHR 0xE3, CHR 0x82, CHR 0x93, CHR 0xE3, CHR 0x80, CHR 0x82]"

text \<open>The title of the error document.\<close>

definition title_error :: string where
  "title_error =
     [CHR 0xE3, CHR 0x82, CHR 0xA8, CHR 0xE3, CHR 0x83, CHR 0xA9, CHR 0xE3, CHR 0x83, CHR 0xBC] @ '' - KomePa''"

text \<open>Its heading.\<close>

definition heading_error :: string where
  "heading_error =
     [CHR 0xE3, CHR 0x82, CHR 0xA8, CHR 0xE3, CHR 0x83, CHR 0xA9, CHR 0xE3, CHR 0x83, CHR 0xBC,
      CHR 0xE3, CHR 0x81, CHR 0x8C, CHR 0xE7, CHR 0x99, CHR 0xBA, CHR 0xE7, CHR 0x94, CHR 0x9F,
      CHR 0xE3, CHR 0x81, CHR 0x97, CHR 0xE3, CHR 0x81, CHR 0xBE, CHR 0xE3, CHR 0x81, CHR 0x97,
      CHR 0xE3, CHR 0x81, CHR 0x9F]"

text \<open>Its link back.\<close>

definition back_label :: string where
  "back_label =
     [CHR 0xE3, CHR 0x83, CHR 0x88, CHR 0xE3, CHR 0x83, CHR 0x83, CHR 0xE3, CHR 0x83, CHR 0x97,
      CHR 0xE3, CHR 0x83, CHR 0x9A, CHR 0xE3, CHR 0x83, CHR 0xBC, CHR 0xE3, CHR 0x82, CHR 0xB8,
      CHR 0xE3, CHR 0x81, CHR 0xAB, CHR 0xE6, CHR 0x88, CHR 0xBB, CHR 0xE3, CHR 0x82, CHR 0x8B]"

text \<open>The message the route passes to renderError.\<close>

definition fetch_failed :: string where
  "fetch_failed =
     [CHR 0xE5, CHR 0x95, CHR 0x86, CHR 0xE5, CHR 0x93, CHR 0x81, CHR 0xE3, CHR 0x83, CHR 0x87,
      CHR 0xE3, CHR 0x83, CHR 0xBC, CHR 0xE3, CHR 0x82, CHR 0xBF, CHR 0xE3, CHR 0x81, CHR 0xAE,
      CHR 0xE5, CHR 0x8F, CHR 0x96, CHR 0xE5, CHR 0xBE, CHR 0x97, CHR 0xE4, CHR 0xB8, CHR 0xAD,
      CHR 0xE3, CHR 0x81, CHR 0xAB, CHR 0xE3, CHR 0x82, CHR 0xA8, CHR 0xE3, CHR 0x83, CHR 0xA9,
      CHR 0xE3, CHR 0x83, CHR 0xBC, CHR 0xE3, CHR 0x81, CHR 0x8C, CHR 0xE7, CHR 0x99, CHR 0xBA,
      CHR 0xE7, CHR 0x94, CHR 0x9F, CHR 0xE3, CHR 0x81, CHR 0x97, CHR 0xE3, CHR 0x81, CHR 0xBE,
      CHR 0xE3, CHR 0x81, CHR 0x97, CHR 0xE3, CHR 0x81, CHR 0x9F, CHR 0xE3, CHR 0x80, CHR 0x82]"

subsection \<open>renderProductList: lines 76 to 362\<close>

text \<open>The head of the catalogue and the script at the end of its body.\<close>

definition catalog_head :: node where
  "catalog_head =
     Elem ''head'' []
       [Elem ''meta'' [(''charset'', ''UTF-8'')] [],
        Elem ''meta'' [(''name'', ''viewport''),
                      (''content'', ''width=device-width, initial-scale=1.0'')] [],
        Elem ''title'' [] [Text title_catalog],
        Elem ''style'' [] []]"

definition catalog_script :: node where
  "catalog_script =
     Elem ''script'' []
       [Text (''function changeSort(value) { window.location.href = '' @ [CHR 0x27] @
              ''?sort='' @ [CHR 0x27] @ '' + value + '' @ [CHR 0x27] @ ''&page=1'' @
              [CHR 0x27] @ ''; }'')]"

definition catalog_header :: node where
  "catalog_header =
     Elem ''div'' [(''class'', ''header'')]
       [Elem ''h1'' [] [Text heading_catalog], Elem ''p'' [] [Text lead_catalog]]"

text \<open>The document around what line 282 chooses.\<close>

definition catalog_page :: "node list \<Rightarrow> document" where
  "catalog_page content =
     Elem ''html'' [(''lang'', ''ja'')]
       [catalog_head,
        Elem ''body'' []
          [Elem ''div'' [(''class'', ''container'')] (catalog_header # content),
           catalog_script]]"

text \<open>Lines 283 to 292: the summary line and the sort control.\<close>

definition sort_option :: "pagination \<Rightarrow> string \<Rightarrow> string \<Rightarrow> node" where
  "sort_option pg v label =
     Elem ''option''
       ((''value'', v) # (if sort_of pg = v then [(''selected'', [])] else []))
       [Text label]"

definition summary_text :: "pagination \<Rightarrow> string" where
  "summary_text pg =
     sum_all @ js_string (totalProducts pg) @ sum_of @
     js_string (js_add (js_mul (js_sub (currentPage pg) (Fin 1)) (limit_of pg)) (Fin 1)) @
     ''-'' @
     js_string (js_min (js_mul (currentPage pg) (limit_of pg)) (totalProducts pg)) @
     sum_shown"

definition controls :: "pagination \<Rightarrow> node" where
  "controls pg =
     Elem ''div'' [(''class'', ''controls'')]
       [Elem ''div'' [] [Elem ''span'' [] [Text (summary_text pg)]],
        Elem ''select'' [(''class'', ''sort-select''), (''onchange'', ''changeSort(this.value)'')]
          [sort_option pg ''price_asc'' opt_price_asc,
           sort_option pg ''price_desc'' opt_price_desc,
           sort_option pg ''updated_desc'' opt_updated_desc]]"

text \<open>
  Lines 296 to 308: one card. \<^verbatim>\<open>product.image_url ? ... : ''\<close> and
  \<^verbatim>\<open>product.affiliate_url || product.product_url\<close> take \<^verbatim>\<open>null\<close> and the empty
  string as absent. \<^verbatim>\<open>product.price.toLocaleString()\<close> is a method call on the
  price: on \<^verbatim>\<open>null\<close> it throws a \<^verbatim>\<open>TypeError\<close>.
\<close>

definition truthy :: "string option \<Rightarrow> bool" where
  "truthy v = (case v of None \<Rightarrow> False | Some x \<Rightarrow> x \<noteq> [])"

definition product_card :: "product \<Rightarrow> exn + node" where
  "product_card p =
     (case price p of
        None \<Rightarrow> Inl (TypeError ''toLocaleString of null'')
      | Some amount \<Rightarrow>
          Inr (Elem ''div'' [(''class'', ''product-card'')]
            ((if truthy (image_url p)
              then [Elem ''img'' [(''src'', the (image_url p)), (''alt'', name p),
                                 (''class'', ''product-image''),
                                 (''onerror'', ''this.style.display='' @ [CHR 0x27] @ ''none'' @ [CHR 0x27])] []]
              else []) @
             [Elem ''div'' [(''class'', ''product-info'')]
                [Elem ''div'' [(''class'', ''product-name'')] [Text (name p)],
                 Elem ''div'' [(''class'', ''product-price'')] [Text (yen @ toLocaleString amount)],
                 Elem ''div'' [(''class'', ''product-site'')]
                   [Text (case site_name p of None \<Rightarrow> [] | Some x \<Rightarrow> x)],
                 Elem ''a'' [(''href'', if truthy (affiliate_url p) then the (affiliate_url p)
                                       else product_url p),
                            (''target'', ''_blank''), (''rel'', ''noopener noreferrer''),
                            (''class'', ''buy-button'')]
                   [Text buy_label]]])))"

text \<open>\<^verbatim>\<open>products.map(...)\<close>: the first card that throws ends the rendering.\<close>

fun product_cards :: "product list \<Rightarrow> exn + node list" where
  "product_cards [] = Inr []"
| "product_cards (p # ps) =
     (case product_card p of
        Inl e \<Rightarrow> Inl e
      | Inr c \<Rightarrow> (case product_cards ps of Inl e \<Rightarrow> Inl e | Inr cs \<Rightarrow> Inr (c # cs)))"

text \<open>The links of the pagination: \<^verbatim>\<open>?page=${n}&sort=${pagination.sort}\<close>.\<close>

definition page_href :: "pagination \<Rightarrow> jsnum \<Rightarrow> string" where
  "page_href pg n = ''?page='' @ js_string n @ ''&sort='' @ sort_of pg"

text \<open>Lines 314 to 318 and 339 to 343: Previous and Next.\<close>

definition prev_control :: "pagination \<Rightarrow> node" where
  "prev_control pg =
     (if js_gt (currentPage pg) (Fin 1)
      then Elem ''a'' [(''href'', page_href pg (js_sub (currentPage pg) (Fin 1)))] [Text prev_label]
      else Elem ''span'' [(''class'', ''disabled'')] [Text prev_label])"

definition next_control :: "pagination \<Rightarrow> node" where
  "next_control pg =
     (if js_lt (currentPage pg) (totalPages pg)
      then Elem ''a'' [(''href'', page_href pg (js_add (currentPage pg) (Fin 1)))] [Text next_label]
      else Elem ''span'' [(''class'', ''disabled'')] [Text next_label])"

text \<open>
  Lines 320 to 337. \<^verbatim>\<open>Array.from({ length: n }, f)\<close> is \<open>f\<close> at the indices below
  the length \<open>n\<close> (\<^verbatim>\<open>NaN\<close> and a negative length count as none). \<open>page_number pg i\<close>
  is \<^verbatim>\<open>pageNum\<close> at index \<open>i\<close>, \<open>page_entry pg pageNum\<close> the second \<^verbatim>\<open>if\<close> of
  the callback and \<open>page_link pg i\<close> what the callback returns.
\<close>

definition array_length :: "jsnum \<Rightarrow> nat" where
  "array_length x = (case x of Fin n \<Rightarrow> nat n | PosInf \<Rightarrow> 2 ^ 53 - 1 | _ \<Rightarrow> 0)"

definition page_number :: "pagination \<Rightarrow> nat \<Rightarrow> jsnum" where
  "page_number pg i =
     (if js_le (totalPages pg) (Fin 5) then js_add (Fin (int i)) (Fin 1)
      else if js_le (currentPage pg) (Fin 3) then js_add (Fin (int i)) (Fin 1)
      else if js_ge (currentPage pg) (js_sub (totalPages pg) (Fin 2))
        then js_add (js_sub (totalPages pg) (Fin 4)) (Fin (int i))
      else js_add (js_sub (currentPage pg) (Fin 2)) (Fin (int i)))"

definition page_entry :: "pagination \<Rightarrow> jsnum \<Rightarrow> node" where
  "page_entry pg pn =
     (if js_eq pn (currentPage pg)
      then Elem ''span'' [(''class'', ''current'')] [Text (js_string pn)]
      else Elem ''a'' [(''href'', page_href pg pn)] [Text (js_string pn)])"

definition page_link :: "pagination \<Rightarrow> nat \<Rightarrow> node" where
  "page_link pg i = page_entry pg (page_number pg i)"

definition page_links :: "pagination \<Rightarrow> node list" where
  "page_links pg = map (page_link pg) [0 ..< array_length (js_min (Fin 5) (totalPages pg))]"

text \<open>Lines 312 to 345: the pagination, present when \<^verbatim>\<open>totalPages > 1\<close>.\<close>

definition pagination_block :: "pagination \<Rightarrow> node list" where
  "pagination_block pg =
     (if js_gt (totalPages pg) (Fin 1)
      then [Elem ''div'' [(''class'', ''pagination'')]
              (prev_control pg # page_links pg @ [next_control pg])]
      else [])"

text \<open>Lines 347 to 350: the empty state.\<close>

definition no_products :: node where
  "no_products =
     Elem ''div'' [(''class'', ''no-products'')]
       [Elem ''h2'' [] [Text none_heading], Elem ''p'' [] [Text none_text]]"

text \<open>
  The renderer. It returns the document, or what the template has thrown: the cards are
  the only part of it that can throw.
\<close>

definition renderProductList :: "product list \<Rightarrow> pagination \<Rightarrow> exn + document" where
  "renderProductList products pg =
     (if length products > 0
      then (case product_cards products of
              Inl e \<Rightarrow> Inl e
            | Inr cards \<Rightarrow>
                Inr (catalog_page
                  ([controls pg, Elem ''div'' [(''class'', ''products-grid'')] cards] @
                   pagination_block pg)))
      else Inr (catalog_page [no_products]))"

subsection \<open>renderError: lines 365 to 417\<close>

definition renderError :: "string \<Rightarrow> document" where
  "renderError message =
     Elem ''html'' [(''lang'', ''ja'')]
       [Elem ''head'' []
          [Elem ''meta'' [(''charset'', ''UTF-8'')] [],
           Elem ''meta'' [(''name'', ''viewport''),
                         (''content'', ''width=device-width, initial-scale=1.0'')] [],
           Elem ''title'' [] [Text title_error],
           Elem ''style'' [] []],
        Elem ''body'' []
          [Elem ''div'' [(''class'', ''error-container'')]
             [Elem ''h1'' [] [Text heading_error],
              Elem ''p'' [] [Text message],
              Elem ''a'' [(''href'', ''/''), (''class'', ''back-link'')] [Text back_label]]]]"

subsection \<open>The route: lines 25 to 73\<close>

text \<open>
  What the route hands to the transport: a document through \<^verbatim>\<open>c.html\<close>, or an
  exception it has not caught.
\<close>

datatype response = Html document | Uncaught exn

text \<open>
  The route returns its response and what it has written with \<^verbatim>\<open>console.error\<close>.
  Everything from the count to \<^verbatim>\<open>renderProductList\<close> is inside the \<^verbatim>\<open>try\<close>
  (\<open>route_try\<close>); the \<^verbatim>\<open>catch\<close> logs the exception and answers with
  \<^verbatim>\<open>renderError\<close>. Nothing before the \<^verbatim>\<open>try\<close> throws.
\<close>

definition route_try :: "store \<Rightarrow> request \<Rightarrow> exn + document" where
  "route_try st r =
     (case fetch_page st r of
        Inl e \<Rightarrow> Inl e
      | Inr (products, pg) \<Rightarrow> renderProductList products pg)"

definition get_root :: "store \<Rightarrow> query \<Rightarrow> response \<times> exn list" where
  "get_root st q =
     (case route_try st (parse_request q) of
        Inr htmlContent \<Rightarrow> (Html htmlContent, [])
      | Inl err \<Rightarrow> (Html (renderError fetch_failed), [err]))"

subsection \<open>Reading a document\<close>

text \<open>
  The children of the pagination element of a document (none when it has no such
  element): Previous, the page links, Next.
\<close>

definition pagination_children :: "document \<Rightarrow> node list" where
  "pagination_children d = concat (map children (by_class ''pagination'' d))"

text \<open>The first of them, the last of them, and what lies between.\<close>

definition shown_prev :: "document \<Rightarrow> node option" where
  "shown_prev d = (case pagination_children d of [] \<Rightarrow> None | x # xs \<Rightarrow> Some x)"

definition shown_next :: "document \<Rightarrow> node option" where
  "shown_next d = (case pagination_children d of [] \<Rightarrow> None | x # xs \<Rightarrow> Some (last (x # xs)))"

definition page_window :: "document \<Rightarrow> node list" where
  "page_window d = butlast (tl (pagination_children d))"

text \<open>The navigation links: the links inside the pagination element.\<close>

definition nav_links :: "document \<Rightarrow> node list" where
  "nav_links d = concat (map (by_tag ''a'') (by_class ''pagination'' d))"

subsection \<open>Following a link\<close>

text \<open>
  A link \<^verbatim>\<open>?page=2&sort=x\<close> is a relative reference made of a query only: the browser
  requests the page's own path with this query, and \<^verbatim>\<open>c.req.query()\<close> of that request
  has one entry per \<^verbatim>\<open>key=value\<close> between the \<^verbatim>\<open>&\<close>, the first one of a key that
  comes twice. (Percent-decoding is not modelled.)
\<close>

fun split_on :: "char \<Rightarrow> string \<Rightarrow> string list" where
  "split_on c [] = [[]]"
| "split_on c (x # xs) =
     (if x = c then [] # split_on c xs
      else (case split_on c xs of [] \<Rightarrow> [[x]] | w # ws \<Rightarrow> (x # w) # ws))"

definition key_value :: "string \<Rightarrow> string \<times> string" where
  "key_value seg =
     (takeWhile (\<lambda>x. x \<noteq> CHR ''='') seg, drop 1 (dropWhile (\<lambda>x. x \<noteq> CHR ''='') seg))"

definition parse_query_string :: "string \<Rightarrow> (string \<times> string) list" where
  "parse_query_string h =
     map key_value (filter (\<lambda>seg. seg \<noteq> [])
       (split_on (CHR ''&'') (if take 1 h = ''?'' then drop 1 h else h)))"

definition follow_link :: "string \<Rightarrow> query" where
  "follow_link h = map_of (parse_query_string h)"

subsection \<open>The page-link window of the specification\<close>

text \<open>
  Section 4.2 of the spec: pages \<open>1..totalPages\<close> if \<open>totalPages \<le> 5\<close>; else \<open>1..5\<close>
  if \<open>currentPage \<le> 3\<close>; else \<open>totalPages-4..totalPages\<close> if
  \<open>currentPage \<ge> totalPages - 2\<close>; else \<open>currentPage-2..currentPage+2\<close>.
\<close>

definition spec_window :: "int \<Rightarrow> int \<Rightarrow> int list" where
  "spec_window current pages =
     (if pages \<le> 5 then [1 .. pages]
      else if current \<le> 3 then [1 .. 5]
      else if current \<ge> pages - 2 then [pages - 4 .. pages]
      else [current - 2 .. current + 2])"

subsection \<open>Sample rows\<close>

definition rice :: product where
  "rice = \<lparr> product_id = ''siteA_1'', name = ''Koshihikari 5kg'', price = Some 3980,
            product_url = ''https://a.example/1'', affiliate_url = None, image_url = None,
            site_name = Some ''SiteA'', last_scraped_at = None, created_at = None,
            updated_at = Some ''2025-01-02 00:00:00'' \<rparr>"

definition unpriced :: product where
  "unpriced = rice \<lparr> product_id := ''siteA_2'', price := None \<rparr>"

definition sample_view :: "int \<Rightarrow> int \<Rightarrow> string \<Rightarrow> pagination" where
  "sample_view current pages s =
     \<lparr> currentPage = Fin current, totalPages = Fin pages, totalProducts = Fin (20 * pages),
       sort_of = s, limit_of = Fin 20 \<rparr>"

subsection \<open>Sample stores\<close>

text \<open>A store whose count throws, and one whose slice does.\<close>

definition count_fails :: store where
  "count_fails = \<lparr> first_count = Inl (StoreError ''unreachable''),
                    all_slice = (\<lambda>ob n k. Inr (Some [rice])) \<rparr>"

definition slice_fails :: store where
  "slice_fails = \<lparr> first_count = Inr (Some (Fin 1)),
                    all_slice = (\<lambda>ob n k. Inl (StoreError ''unreachable'')) \<rparr>"

subsection \<open>Sample page views and documents\<close>

text \<open>
  The page view of one row in pages of twenty; the one of a request with
  \<^verbatim>\<open>limit=50\<close> whose \<^verbatim>\<open>sort\<close> is the string \<^verbatim>\<open>x&limit=50\<close>; and the
  catalogue of the one sample row under a page view.
\<close>

definition single_page :: pagination where
  "single_page = \<lparr> currentPage = Fin 1, totalPages = Fin 1, totalProducts = Fin 1,
                    sort_of = ''price_asc'', limit_of = Fin 20 \<rparr>"

definition injected :: pagination where
  "injected = \<lparr> currentPage = Fin 1, totalPages = Fin 2, totalProducts = Fin 60,
                 sort_of = ''x&limit=50'', limit_of = Fin 50 \<rparr>"

definition sample_doc :: "pagination \<Rightarrow> document" where
  "sample_doc pg = (case renderProductList [rice] pg of Inr d \<Rightarrow> d | Inl e \<Rightarrow> Text [])"

section \<open>Properties\<close>

subsection \<open>The functions on concrete inputs\<close>

lemma bitlen_le: "m < 2 ^ k \<Longrightarrow> bitlen m \<le> k"
proof (induction k arbitrary: m)
  case 0
  then show ?case by (simp add: bitlen.simps)
next
  case (Suc k)
  show ?case
  proof (cases "m = 0")
    case True
    then show ?thesis by (simp add: bitlen.simps)
  next
    case False
    have "m div 2 < 2 ^ k" using Suc.prems by simp
    then have "bitlen (m div 2) \<le> k" by (rule Suc.IH)
    with False show ?thesis by (subst bitlen.simps) simp
  qed
qed

text \<open>Below \<open>2 ^ 53\<close> nothing is rounded.\<close>

lemma round_double_exact: "\<bar>n\<bar> < 2 ^ 53 \<Longrightarrow> round_double n = Fin n"
proof -
  assume "\<bar>n\<bar> < 2 ^ 53"
  then have small: "nat \<bar>n\<bar> < 2 ^ 53" by simp
  then have b: "bitlen (nat \<bar>n\<bar>) \<le> 53" by (rule bitlen_le)
  have "(2::nat) ^ 53 < 2 ^ 1024" by simp
  with small have "nat \<bar>n\<bar> < 2 ^ 1024" by linarith
  then have "\<not> (2::nat) ^ 1024 \<le> nat \<bar>n\<bar>" by simp
  moreover have "sgn n * int (nat \<bar>n\<bar>) = n" by (simp add: mult_sgn_abs)
  ultimately show ?thesis
    by (simp add: round_double_def round_nat_def b Let_def del: of_nat_nat)
qed

declare round_double_exact [simp]

lemma space_prefix_other:
  "c \<notin> set [CHR 0x09, CHR 0x0A, CHR 0x0B, CHR 0x0C, CHR 0x0D, CHR 0x20,
              CHR 0xC2, CHR 0xE1, CHR 0xE2, CHR 0xE3, CHR 0xEF] \<Longrightarrow>
   space_prefix (c # s) = 0"
  by (simp add: space_prefix_def js_spaces_def)

lemma js_mul_exact: "\<bar>a * b\<bar> < 2 ^ 53 \<Longrightarrow> js_mul (Fin a) (Fin b) = Fin (a * b)"
  by (simp add: round_double_exact)

lemmas parseInt_eval = parseInt_def strip_sign_def strip_hex_prefix_def in_radix_def digit_val_def
  radix_value_def skip_space.simps space_prefix_def js_spaces_def

lemma parseInt_examples:
  "parseInt ''1'' = Fin 1" "parseInt ''20'' = Fin 20" "parseInt ''  -42px'' = Fin (- 42)"
  "parseInt ''0x1f'' = Fin 31" "parseInt ''abc'' = NaN" "parseInt '''' = NaN"
  "parseInt ''12abc'' = Fin 12" "parseInt ''3.99'' = Fin 3"
  "parseInt ([CHR 0xC2, CHR 0xA0] @ ''7'') = Fin 7"
  by (simp_all add: parseInt_eval)

lemma parseInt_rounds:
  "parseInt ''9007199254740993'' = Fin 9007199254740992"
  "parseInt ''99999999999999999999'' = Fin 100000000000000000000"
  by (simp_all add: parseInt_def strip_sign_def strip_hex_prefix_def in_radix_def digit_val_def
      radix_value_def skip_space.simps space_prefix_def js_spaces_def
      round_double_def round_nat_def bitlen.simps Let_def)

lemma js_string_examples:
  "js_string (Fin 0) = ''0''" "js_string (Fin 45) = ''45''" "js_string (Fin (- 7)) = ''-7''"
  "toLocaleString 1234567 = ''1,234,567''" "toLocaleString 980 = ''980''"
  by (simp_all add: digits_of.simps group3.simps digit_char_def toLocaleString_def)

subsection \<open>Decimal strings\<close>

text \<open>
  \<^verbatim>\<open>parseInt\<close> reads back what \<^verbatim>\<open>String\<close> writes for an integer that is not
  negative: every page number and every page size is the value of some parameter.
\<close>

lemma digit_char_decimal: "digit_char d \<in> set ''0123456789''"
  unfolding digit_char_def by (rule nth_mem) simp

lemma below_ten:
  "(k::nat) < 10 \<Longrightarrow>
   k = 0 \<or> k = 1 \<or> k = 2 \<or> k = 3 \<or> k = 4 \<or> k = 5 \<or> k = 6 \<or> k = 7 \<or> k = 8 \<or> k = 9"
  by arith

lemma digit_val_decimal: "k < 10 \<Longrightarrow> digit_val (''0123456789'' ! k) = Some k"
  by (drule below_ten) (elim disjE; simp add: digit_val_def)

lemma digit_val_digit_char: "digit_val (digit_char d) = Some (d mod 10)"
  unfolding digit_char_def by (rule digit_val_decimal) simp

lemma radix_value_snoc:
  "radix_value r (ds @ [c]) = radix_value r ds * r + the (digit_val c)"
  by (simp add: radix_value_def)

lemma radix_value_digits_of: "radix_value 10 (digits_of n) = n"
proof (induction n rule: digits_of.induct)
  case (1 n)
  show ?case
  proof (cases "n < 10")
    case True
    then show ?thesis
      by (subst digits_of.simps) (simp add: radix_value_def digit_val_digit_char)
  next
    case False
    then have "radix_value 10 (digits_of n) = radix_value 10 (digits_of (n div 10)) * 10 + n mod 10"
      by (subst digits_of.simps) (simp add: radix_value_snoc digit_val_digit_char)
    with 1 False show ?thesis by simp
  qed
qed

lemma digits_of_decimal: "set (digits_of n) \<subseteq> set ''0123456789''"
proof (induction n rule: digits_of.induct)
  case (1 n)
  show ?case
  proof (cases "n < 10")
    case True
    then show ?thesis
      using digit_char_decimal [of n] by (subst digits_of.simps) simp
  next
    case False
    then show ?thesis
      using 1 digit_char_decimal [of "n mod 10"] by (subst digits_of.simps) simp
  qed
qed

lemma digits_of_nonempty: "digits_of n \<noteq> []"
  by (subst digits_of.simps) simp

lemma decimal_in_radix:
  "c \<in> set ''0123456789'' \<Longrightarrow>
   in_radix 10 c \<and> c \<noteq> CHR ''-'' \<and> c \<noteq> CHR ''+'' \<and> c \<noteq> CHR ''x'' \<and> c \<noteq> CHR ''X''"
  by (auto simp: in_radix_def digit_val_def)

lemma decimal_no_space: "c \<in> set ''0123456789'' \<Longrightarrow> space_prefix (c # s) = 0"
  by (rule space_prefix_other) auto

lemma parseInt_digits:
  assumes "ds \<noteq> []" and "set ds \<subseteq> set ''0123456789''"
  shows "parseInt ds = round_double (int (radix_value 10 ds))"
proof -
  obtain c rest where ds: "ds = c # rest" using assms(1) by (cases ds) auto
  have all: "\<And>x. x \<in> set ds \<Longrightarrow> in_radix 10 x" using assms(2) decimal_in_radix by blast
  have c: "space_prefix (c # rest) = 0" "c \<noteq> CHR ''-''" "c \<noteq> CHR ''+''"
    using assms(2) decimal_in_radix [of c] decimal_no_space [of c rest] by (auto simp: ds)
  have sp: "skip_space ds = ds" using c by (simp add: ds skip_space.simps)
  have sg: "strip_sign ds = (1, ds)" using c by (simp add: strip_sign_def ds)
  have "take 2 ds \<noteq> ''0x''" "take 2 ds \<noteq> ''0X''"
    using assms(2) decimal_in_radix by (cases rest; auto simp: ds)+
  then have hx: "strip_hex_prefix ds = (10, ds)" by (simp add: strip_hex_prefix_def)
  have tw: "takeWhile (in_radix 10) ds = ds" using all by (simp add: takeWhile_eq_all_conv)
  show ?thesis
    by (simp add: parseInt_def sp sg hx tw assms(1))
qed

lemma parseInt_js_string:
  "0 \<le> n \<Longrightarrow> n < 2 ^ 53 \<Longrightarrow> parseInt (js_string (Fin n)) = Fin n"
  using parseInt_digits [OF digits_of_nonempty digits_of_decimal, of "nat n"]
  by (simp add: radix_value_digits_of round_double_exact)

subsection \<open>The ceiling of a quotient\<close>

lemma ceil_div_real:
  "k \<noteq> 0 \<Longrightarrow> js_ceil_div (Fin n) (Fin k) = Fin \<lceil>real_of_int n / real_of_int k\<rceil>"
  by (simp add: ceiling_divide_eq_div)

lemma ceil_div_zero_iff:
  "0 \<le> n \<Longrightarrow> 0 < k \<Longrightarrow> (js_ceil_div (Fin n) (Fin k) = Fin 0) = (n = 0)"
  by (auto simp: zdiv_eq_0_iff)

lemma ceil_div_covers:
  assumes "0 < k"
  shows "n \<le> (- ((- n) div k)) * (k::int)"
proof -
  have "(- n) div k * k + (- n) mod k = - n" by simp
  moreover have "0 \<le> (- n) mod k" using assms by simp
  ultimately have "(- n) div k * k \<le> - n" by linarith
  then show ?thesis by simp
qed

lemma count_totals_Inr:
  "count_totals st lnum = Inr (tp, pages) \<Longrightarrow> pages = js_ceil_div tp lnum"
  by (auto simp: count_totals_def Let_def split: sum.splits)

subsection \<open>The number of pages\<close>

text \<open>
  Claim C3. When the count has given \<open>totalProducts = n \<ge> 0\<close> and the page size is
  \<open>k > 0\<close>, the \<open>totalPages\<close> of lines 48 to 50 is the ceiling of the real quotient
  \<open>n / k\<close>, and it is zero exactly when \<open>n\<close> is zero.
\<close>

theorem total_pages_is_ceiling:
  assumes "0 \<le> n" and "0 < k" and "count_totals st (Fin k) = Inr (Fin n, pages)"
  shows "pages = Fin \<lceil>real_of_int n / real_of_int k\<rceil> \<and> (pages = Fin 0 \<longleftrightarrow> n = 0)"
proof -
  have p: "pages = js_ceil_div (Fin n) (Fin k)"
    using assms(3) by (rule count_totals_Inr)
  have "pages = Fin \<lceil>real_of_int n / real_of_int k\<rceil>"
    using assms(2) ceil_div_real [of k n] by (simp only: p)
  moreover have "(pages = Fin 0) = (n = 0)"
    using assms(1,2) by (simp only: p ceil_div_zero_iff)
  ultimately show ?thesis by simp
qed

text \<open>Forty-five rows in pages of twenty: three pages.\<close>

theorem total_pages_is_ceiling_witness:
  "(0::int) \<le> 45 \<and> (0::int) < 20 \<and>
   count_totals (d1_table (replicate 45 rice)) (Fin 20) = Inr (Fin 45, Fin 3) \<and>
   Fin 3 = Fin \<lceil>real_of_int 45 / real_of_int 20\<rceil> \<and> ((Fin 3 = Fin 0) = ((45::int) = 0))"
proof -
  have h: "count_totals (d1_table (replicate 45 rice)) (Fin 20) = Inr (Fin 45, Fin 3)"
    by (simp add: count_totals_def d1_table_def js_or_zero_def)
  show ?thesis using total_pages_is_ceiling [OF _ _ h] h by simp
qed

subsection \<open>The request and the store\<close>

lemma parse_request_fields:
  "sort_tok (parse_request q) = param q ''sort'' ''price_asc''"
  "pageNum (parse_request q) = parseInt (param q ''page'' ''1'')"
  "limitNum (parse_request q) = parseInt (param q ''limit'' ''20'')"
  "offset (parse_request q) =
     js_mul (js_sub (pageNum (parse_request q)) (Fin 1)) (limitNum (parse_request q))"
  "orderBy (parse_request q) = resolve_order (sort_tok (parse_request q))"
  by (simp_all add: parse_request_def Let_def)

lemma decimal_request:
  assumes "0 \<le> page" and "page < 2 ^ 53" and "0 \<le> k" and "k < 2 ^ 53"
  shows "pageNum (parse_request [''page'' \<mapsto> js_string (Fin page), ''limit'' \<mapsto> js_string (Fin k)]) = Fin page"
    and "limitNum (parse_request [''page'' \<mapsto> js_string (Fin page), ''limit'' \<mapsto> js_string (Fin k)]) = Fin k"
  using assms by (simp_all add: parse_request_fields param_def parseInt_js_string del: js_string.simps)

lemma order_rows_resolved:
  "\<exists>ordered. order_rows (resolve_order s) rows = Some ordered \<and> length ordered = length rows"
  by (simp add: order_rows_def resolve_order_def)

lemma d1_table_count:
  "count_totals (d1_table rows) lnum =
     Inr (Fin (int (length rows)), js_ceil_div (Fin (int (length rows))) lnum)"
  by (simp add: count_totals_def d1_table_def js_or_zero_def Let_def)

lemma d1_table_slice:
  "order_rows ob rows = Some ordered \<Longrightarrow> in_int64 n \<Longrightarrow> in_int64 k \<Longrightarrow>
   all_slice (d1_table rows) ob (Fin n) (Fin k) = Inr (Some (limit_offset n k ordered))"
  by (simp add: d1_table_def)

lemma in_int64_small: "\<bar>n\<bar> < 2 ^ 53 \<Longrightarrow> in_int64 n"
  by (auto simp: in_int64_def)

lemma limit_offset_beyond:
  "int (length xs) \<le> k \<Longrightarrow> limit_offset n k xs = []"
  by (simp add: limit_offset_def)

lemma fetch_page_count_fails:
  "first_count st = Inl e \<Longrightarrow> fetch_page st r = Inl e"
  by (simp add: fetch_page_def count_totals_def)

lemma fetch_page_slice_fails:
  "first_count st = Inr c \<Longrightarrow> all_slice st (orderBy r) (limitNum r) (offset r) = Inl e \<Longrightarrow>
   fetch_page st r = Inl e"
  by (simp add: fetch_page_def count_totals_def Let_def)

lemma get_root_caught:
  "fetch_page st (parse_request q) = Inl e \<Longrightarrow>
   get_root st q = (Html (renderError fetch_failed), [e])"
  by (simp add: get_root_def route_try_def)

lemma fetch_page_d1_table:
  assumes "order_rows (orderBy r) rows = Some ordered"
    and "limitNum r = Fin n" and "offset r = Fin k" and "in_int64 n" and "in_int64 k"
  shows "fetch_page (d1_table rows) r =
    Inr (limit_offset n k ordered,
         \<lparr> currentPage = pageNum r,
           totalPages = js_ceil_div (Fin (int (length rows))) (Fin n),
           totalProducts = Fin (int (length rows)),
           sort_of = sort_tok r, limit_of = Fin n \<rparr>)"
  unfolding fetch_page_def d1_table_count
  using d1_table_slice [OF assms(1,4,5)] by (simp add: assms(2,3) del: js_ceil_div.simps(1))

subsection \<open>The offset, and a page beyond the last\<close>

text \<open>
  Claim C1, as amended. For a request whose page number is \<open>page \<ge> 1\<close> and whose page
  size is \<open>k > 0\<close>, with \<open>page * k\<close> below \<open>2 ^ 53\<close> (so that no double is rounded),
  the offset bound to the slice query is \<open>(page - 1) * k\<close>. Over a table of rows such a
  request is answered with the \<open>k\<close> rows that follow the first \<open>(page - 1) * k\<close> rows
  of the table in the order of the request, and with a page view whose \<open>currentPage\<close>
  is \<open>page\<close> itself (it is not clamped), whose \<open>totalProducts\<close> is the number of rows
  and whose \<open>totalPages\<close> is the ceiling of that number over \<open>k\<close>; when \<open>page\<close> lies
  beyond \<open>totalPages\<close> these items are none. (Every such \<open>page\<close> and \<open>k\<close> is the
  page number and page size of a request: \<open>decimal_request\<close>.)
\<close>

theorem offset_and_page_beyond_last:
  assumes pn: "pageNum (parse_request q) = Fin page"
    and ln: "limitNum (parse_request q) = Fin k"
    and page: "1 \<le> page" and k: "0 < k"
    and safe: "page * k < 2 ^ 53"
  shows "offset (parse_request q) = Fin ((page - 1) * k) \<and>
    (\<exists>ordered. order_rows (orderBy (parse_request q)) rows = Some ordered \<and>
      fetch_page (d1_table rows) (parse_request q) =
        Inr (take (nat k) (drop (nat ((page - 1) * k)) ordered),
             \<lparr> currentPage = Fin page,
               totalPages = Fin \<lceil>real (length rows) / real_of_int k\<rceil>,
               totalProducts = Fin (int (length rows)),
               sort_of = sort_tok (parse_request q), limit_of = Fin k \<rparr>) \<and>
      (\<lceil>real (length rows) / real_of_int k\<rceil> < page \<longrightarrow>
         take (nat k) (drop (nat ((page - 1) * k)) ordered) = []))"
proof -
  let ?r = "parse_request q"
  let ?n = "int (length rows)"
  let ?off = "(page - 1) * k"
  have off0: "0 \<le> ?off" using page k by simp
  have "?off \<le> page * k" using k by (intro mult_right_mono) simp_all
  with safe have off53: "?off < 2 ^ 53" by linarith
  have "1 * k \<le> page * k" using page k by (intro mult_right_mono) simp_all
  with safe have k53: "k < 2 ^ 53" by simp
  have off: "offset ?r = Fin ?off"
    using off0 off53 by (simp add: parse_request_fields(4) pn ln js_sub_def)
  have bounds: "in_int64 k" "in_int64 ?off"
    using k k53 off0 off53 by (simp_all add: in_int64_small)
  obtain ordered where ord: "order_rows (orderBy ?r) rows = Some ordered"
    and len: "length ordered = length rows"
    using order_rows_resolved [of "sort_tok ?r" rows] by (auto simp: parse_request_fields(5))
  let ?items = "take (nat k) (drop (nat ?off) ordered)"
  have lo: "limit_offset k ?off ordered = ?items"
    using k by (simp add: limit_offset_def)
  have ceil: "js_ceil_div (Fin ?n) (Fin k) = Fin \<lceil>real (length rows) / real_of_int k\<rceil>"
    using k ceil_div_real [of k ?n] by simp
  have fetch: "fetch_page (d1_table rows) ?r =
      Inr (?items, \<lparr> currentPage = Fin page,
                      totalPages = Fin \<lceil>real (length rows) / real_of_int k\<rceil>,
                      totalProducts = Fin ?n,
                      sort_of = sort_tok ?r, limit_of = Fin k \<rparr>)"
    using fetch_page_d1_table [OF ord ln off bounds] by (simp only: lo ceil pn)
  have empty: "?items = []" if beyond: "\<lceil>real (length rows) / real_of_int k\<rceil> < page"
  proof -
    have c: "\<lceil>real (length rows) / real_of_int k\<rceil> = - ((- ?n) div k)"
      using ceiling_divide_eq_div [of ?n k, where 'a = real] by simp
    have "?n \<le> (- ((- ?n) div k)) * k" using k by (rule ceil_div_covers)
    also have "\<dots> \<le> ?off"
      using beyond k by (intro mult_right_mono) (simp_all add: c)
    finally show ?thesis by (simp add: len)
  qed
  from off ord fetch empty show ?thesis by blast
qed

text \<open>Page 4 of forty-five rows in pages of twenty: offset 60, no item, three pages.\<close>

theorem offset_and_page_beyond_last_witness:
  "pageNum (parse_request [''page'' \<mapsto> ''4'', ''limit'' \<mapsto> ''20'']) = Fin 4 \<and>
   limitNum (parse_request [''page'' \<mapsto> ''4'', ''limit'' \<mapsto> ''20'']) = Fin 20 \<and>
   (1::int) \<le> 4 \<and> (0::int) < 20 \<and> (4::int) * 20 < 2 ^ 53 \<and>
   offset (parse_request [''page'' \<mapsto> ''4'', ''limit'' \<mapsto> ''20'']) = Fin 60 \<and>
   fetch_page (d1_table (replicate 45 rice)) (parse_request [''page'' \<mapsto> ''4'', ''limit'' \<mapsto> ''20'']) =
     Inr ([], \<lparr> currentPage = Fin 4, totalPages = Fin 3, totalProducts = Fin 45,
                 sort_of = ''price_asc'', limit_of = Fin 20 \<rparr>)"
proof -
  let ?q = "[''page'' \<mapsto> ''4'', ''limit'' \<mapsto> ''20'']"
  have pn: "pageNum (parse_request ?q) = Fin 4"
    by (simp add: parse_request_fields param_def parseInt_eval)
  have ln: "limitNum (parse_request ?q) = Fin 20"
    by (simp add: parse_request_fields param_def parseInt_eval)
  have st: "sort_tok (parse_request ?q) = ''price_asc''"
    by (simp add: parse_request_fields param_def)
  have c: "\<lceil>real (length (replicate 45 rice)) / real_of_int 20\<rceil> = 3"
    by simp
  show ?thesis
    using offset_and_page_beyond_last [OF pn ln, of "replicate 45 rice"] pn ln
    by (auto simp: st c)
qed

text \<open>
  Claim C1 as stated fails where a double is rounded. For \<^verbatim>\<open>page=94906268\<close> and
  \<^verbatim>\<open>limit=94906269\<close> the product \<open>(page - 1) * limit\<close> is the odd number
  9007199705687823, which is not a double: the offset bound to the query is
  9007199705687824. For \<^verbatim>\<open>page=99999999999999999999\<close>, far beyond the last page of
  one row, the page number is read as \<open>10 ^ 20\<close> and the offset is \<open>2 * 10 ^ 21\<close>, which
  the store refuses: the slice throws and the route has no items and no totals to show.
\<close>

theorem large_offset_is_rounded:
  "pageNum (parse_request [''page'' \<mapsto> ''94906268'', ''limit'' \<mapsto> ''94906269'']) = Fin 94906268 \<and>
   limitNum (parse_request [''page'' \<mapsto> ''94906268'', ''limit'' \<mapsto> ''94906269'']) = Fin 94906269 \<and>
   offset (parse_request [''page'' \<mapsto> ''94906268'', ''limit'' \<mapsto> ''94906269'']) =
     Fin 9007199705687824 \<and>
   (94906268 - 1) * 94906269 = (9007199705687823 :: int) \<and>
   pageNum (parse_request [''page'' \<mapsto> ''99999999999999999999'']) = Fin 100000000000000000000 \<and>
   offset (parse_request [''page'' \<mapsto> ''99999999999999999999'']) = Fin 2000000000000000000000 \<and>
   fetch_page (d1_table [rice]) (parse_request [''page'' \<mapsto> ''99999999999999999999'']) =
     Inl (StoreError ''integer out of range'') \<and>
   get_root (d1_table [rice]) [''page'' \<mapsto> ''99999999999999999999''] =
     (Html (renderError fetch_failed), [StoreError ''integer out of range''])"
proof -
  let ?q = "[''page'' \<mapsto> ''94906268'', ''limit'' \<mapsto> ''94906269'']"
  let ?p = "[''page'' \<mapsto> ''99999999999999999999'']"
  have pn: "pageNum (parse_request ?q) = Fin 94906268"
    by (simp add: parse_request_fields param_def parseInt_eval)
  have ln: "limitNum (parse_request ?q) = Fin 94906269"
    by (simp add: parse_request_fields param_def parseInt_eval)
  have r: "round_double 9007199705687823 = Fin 9007199705687824"
    by (simp add: round_double_def round_nat_def bitlen.simps Let_def)
  have off: "offset (parse_request ?q) = Fin 9007199705687824"
    by (simp add: parse_request_fields(4) pn ln js_sub_def r)
  have pn': "pageNum (parse_request ?p) = Fin 100000000000000000000"
    by (simp add: parse_request_fields param_def parseInt_rounds)
  have ln': "limitNum (parse_request ?p) = Fin 20"
    by (simp add: parse_request_fields param_def parseInt_examples)
  have r': "round_double 1999999999999999999980 = Fin 2000000000000000000000"
    by (simp add: round_double_def round_nat_def bitlen.simps Let_def)
  have off': "offset (parse_request ?p) = Fin 2000000000000000000000"
    by (simp add: parse_request_fields(4) pn' ln' js_sub_def r')
  have ob: "order_rows (orderBy (parse_request ?p)) [rice] = Some [rice]"
    by (simp add: parse_request_fields param_def resolve_order_def order_rows_def)
  have sl: "all_slice (d1_table [rice]) (orderBy (parse_request ?p)) (limitNum (parse_request ?p))
      (offset (parse_request ?p)) = Inl (StoreError ''integer out of range'')"
    by (simp add: d1_table_def ob ln' off' in_int64_def)
  have f: "fetch_page (d1_table [rice]) (parse_request ?p) = Inl (StoreError ''integer out of range'')"
    by (rule fetch_page_slice_fails [OF _ sl]) (simp add: d1_table_def)
  have g: "get_root (d1_table [rice]) ?p =
      (Html (renderError fetch_failed), [StoreError ''integer out of range''])"
    using f by (rule get_root_caught)
  show ?thesis
    by (simp only: pn ln off pn' off' f g) simp
qed

subsection \<open>A failing store\<close>

lemma renderError_no_grid:
  "by_class ''products-grid'' (renderError m) = []"
  "by_class ''product-card'' (renderError m) = []"
  by (simp_all add: renderError_def)

text \<open>
  Claim C4. When the count throws, or the count answers and the slice throws, the route
  answers with the document of \<^verbatim>\<open>renderError\<close> for its fixed message and logs the
  exception: the response is a document, not the exception, and that document holds
  neither a product grid nor a product card.
\<close>

theorem store_failure_is_absorbed:
  assumes "first_count st = Inl e \<or>
    (\<exists>c. first_count st = Inr c \<and>
       all_slice st (orderBy (parse_request q)) (limitNum (parse_request q))
         (offset (parse_request q)) = Inl e)"
  shows "get_root st q = (Html (renderError fetch_failed), [e]) \<and>
    by_class ''products-grid'' (renderError fetch_failed) = [] \<and>
    by_class ''product-card'' (renderError fetch_failed) = []"
proof -
  have "fetch_page st (parse_request q) = Inl e"
    using assms by (auto intro: fetch_page_count_fails fetch_page_slice_fails)
  then show ?thesis
    by (simp add: get_root_caught renderError_no_grid)
qed

text \<open>Both failures, on the two sample stores.\<close>

theorem store_failure_is_absorbed_witness:
  "first_count count_fails = Inl (StoreError ''unreachable'') \<and>
   get_root count_fails Map.empty =
     (Html (renderError fetch_failed), [StoreError ''unreachable'']) \<and>
   first_count slice_fails = Inr (Some (Fin 1)) \<and>
   all_slice slice_fails ''price ASC'' (Fin 20) (Fin 0) = Inl (StoreError ''unreachable'') \<and>
   get_root slice_fails Map.empty =
     (Html (renderError fetch_failed), [StoreError ''unreachable''])"
proof -
  have a: "first_count count_fails = Inl (StoreError ''unreachable'')"
    by (simp add: count_fails_def)
  have b: "first_count slice_fails = Inr (Some (Fin 1))"
    by (simp add: slice_fails_def)
  have c: "all_slice slice_fails ob n k = Inl (StoreError ''unreachable'')" for ob n k
    by (simp add: slice_fails_def)
  show ?thesis
    using store_failure_is_absorbed [of count_fails "StoreError ''unreachable''" Map.empty]
      store_failure_is_absorbed [of slice_fails "StoreError ''unreachable''" Map.empty]
    by (simp add: a b c)
qed

subsection \<open>The sort order\<close>

lemma resolve_order_default:
  "s \<noteq> ''price_desc'' \<Longrightarrow> s \<noteq> ''updated_desc'' \<Longrightarrow> resolve_order s = ''price ASC''"
  by (simp add: resolve_order_def)

text \<open>
  Claim C7. When the parameter \<^verbatim>\<open>sort\<close> is absent or is any string other than
  \<^verbatim>\<open>price_desc\<close> and \<^verbatim>\<open>updated_desc\<close>, the \<^verbatim>\<open>ORDER BY\<close> of the slice query is
  \<^verbatim>\<open>price ASC\<close>, the one of \<^verbatim>\<open>price_asc\<close>; and over every store the page view (or
  the failure of the store) is the one of the same request with \<^verbatim>\<open>sort=price_asc\<close>,
  but for the token it echoes. The resolution itself has no failing branch.
\<close>

theorem unrecognized_sort_is_price_asc:
  assumes "q ''sort'' \<noteq> Some ''price_desc''" and "q ''sort'' \<noteq> Some ''updated_desc''"
  shows "orderBy (parse_request q) = ''price ASC'' \<and>
    orderBy (parse_request q) = orderBy (parse_request (q(''sort'' \<mapsto> ''price_asc''))) \<and>
    map_sum id (\<lambda>(items, pg). (items, pg\<lparr>sort_of := ''price_asc''\<rparr>))
        (fetch_page st (parse_request q)) =
      fetch_page st (parse_request (q(''sort'' \<mapsto> ''price_asc'')))"
proof -
  let ?q' = "q(''sort'' \<mapsto> ''price_asc'')"
  have s: "param q ''sort'' ''price_asc'' \<noteq> ''price_desc''"
      "param q ''sort'' ''price_asc'' \<noteq> ''updated_desc''"
    using assms by (auto simp: param_def split: option.splits)
  have ob: "orderBy (parse_request q) = ''price ASC''"
    using s by (simp add: parse_request_fields resolve_order_default)
  have ob': "orderBy (parse_request ?q') = ''price ASC''"
    by (simp add: parse_request_fields param_def resolve_order_def)
  have same: "pageNum (parse_request ?q') = pageNum (parse_request q)"
      "limitNum (parse_request ?q') = limitNum (parse_request q)"
      "offset (parse_request ?q') = offset (parse_request q)"
      "sort_tok (parse_request ?q') = ''price_asc''"
    by (simp_all add: parse_request_fields param_def)
  have "map_sum id (\<lambda>(items, pg). (items, pg\<lparr>sort_of := ''price_asc''\<rparr>))
        (fetch_page st (parse_request q)) = fetch_page st (parse_request ?q')"
    unfolding fetch_page_def ob ob' same
    by (simp split: sum.splits prod.splits)
  with ob ob' show ?thesis by simp
qed

text \<open>An unknown token and an absent parameter.\<close>

theorem unrecognized_sort_is_price_asc_witness:
  "[''sort'' \<mapsto> ''cheapest''] ''sort'' \<noteq> Some ''price_desc'' \<and>
   [''sort'' \<mapsto> ''cheapest''] ''sort'' \<noteq> Some ''updated_desc'' \<and>
   orderBy (parse_request [''sort'' \<mapsto> ''cheapest'']) = ''price ASC'' \<and>
   Map.empty ''sort'' \<noteq> Some ''price_desc'' \<and> Map.empty ''sort'' \<noteq> Some ''updated_desc'' \<and>
   orderBy (parse_request Map.empty) = ''price ASC'' \<and>
   fetch_page (d1_table [rice]) (parse_request [''sort'' \<mapsto> ''cheapest'']) =
     Inr ([rice], \<lparr> currentPage = Fin 1, totalPages = Fin 1, totalProducts = Fin 1,
                     sort_of = ''cheapest'', limit_of = Fin 20 \<rparr>)"
proof -
  have f: "fetch_page (d1_table [rice]) (parse_request [''sort'' \<mapsto> ''cheapest'']) =
     Inr ([rice], \<lparr> currentPage = Fin 1, totalPages = Fin 1, totalProducts = Fin 1,
                     sort_of = ''cheapest'', limit_of = Fin 20 \<rparr>)"
    using fetch_page_d1_table [of "parse_request [''sort'' \<mapsto> ''cheapest'']" "[rice]" "[rice]" 20 0]
    by (simp add: parse_request_fields param_def parseInt_eval
        resolve_order_def order_rows_def limit_offset_def js_sub_def in_int64_def)
  show ?thesis
    using unrecognized_sort_is_price_asc [of "[''sort'' \<mapsto> ''cheapest'']" "d1_table [rice]"]
      unrecognized_sort_is_price_asc [of Map.empty "d1_table [rice]"] f
    by simp
qed

subsection \<open>The structure of a rendered catalogue\<close>

lemma by_class_catalog_page:
  "by_class ''pagination'' (catalog_page content) = concat (map (by_class ''pagination'') content)"
  by (simp add: catalog_page_def catalog_head_def catalog_header_def catalog_script_def)

lemma by_class_controls: "by_class ''pagination'' (controls pg) = []"
  by (simp add: controls_def sort_option_def)

lemma by_class_product_card:
  assumes "product_card p = Inr cnode"
  shows "by_class ''pagination'' cnode = []"
  using assms by (auto simp: product_card_def split: option.splits)

lemma by_class_product_cards:
  assumes "product_cards ps = Inr cards"
  shows "concat (map (by_class ''pagination'') cards) = []"
  using assms
proof (induction ps arbitrary: cards)
  case Nil
  then show ?case by simp
next
  case (Cons p ps)
  then obtain cnode rest where "product_card p = Inr cnode" "product_cards ps = Inr rest"
      "cards = cnode # rest"
    by (auto split: sum.splits)
  with Cons.IH show ?case
    by (simp add: by_class_product_card)
qed

lemma by_class_prev_control:
  "by_class ''pagination'' (prev_control pg) = []"
  "by_class ''pagination'' (next_control pg) = []"
  "by_class ''pagination'' (page_entry pg x) = []"
  by (simp_all add: prev_control_def next_control_def page_entry_def)

lemma by_class_page_links: "concat (map (by_class ''pagination'') (page_links pg)) = []"
  by (simp add: page_links_def page_link_def by_class_prev_control)

lemma by_class_pagination_block:
  "concat (map (by_class ''pagination'') (pagination_block pg)) = pagination_block pg"
  by (simp add: pagination_block_def by_class_prev_control by_class_page_links)

lemma render_empty: "renderProductList [] pg = Inr (catalog_page [no_products])"
  by (simp add: renderProductList_def)

lemma render_nonempty:
  assumes "ps \<noteq> []" and "renderProductList ps pg = Inr d"
  obtains cards where "product_cards ps = Inr cards"
    and "d = catalog_page ([controls pg, Elem ''div'' [(''class'', ''products-grid'')] cards] @
                   pagination_block pg)"
  using assms by (auto simp: renderProductList_def split: sum.splits)

lemma render_ok:
  assumes "ps \<noteq> []" and "product_cards ps = Inr cards"
  shows "renderProductList ps pg = 
    Inr (catalog_page ([controls pg, Elem ''div'' [(''class'', ''products-grid'')] cards] @
                   pagination_block pg))"
  using assms by (simp add: renderProductList_def)

lemma pagination_of_render:
  assumes "ps \<noteq> []" and "renderProductList ps pg = Inr d"
  shows "by_class ''pagination'' d = pagination_block pg"
proof -
  from assms obtain cards where c: "product_cards ps = Inr cards"
    and d: "d = catalog_page ([controls pg, Elem ''div'' [(''class'', ''products-grid'')] cards] @
                   pagination_block pg)"
    by (rule render_nonempty)
  have "concat (map (by_class ''pagination'') cards) = []"
    using c by (rule by_class_product_cards)
  then show ?thesis
    by (simp add: d by_class_catalog_page by_class_controls by_class_pagination_block)
qed

lemma pagination_children_render:
  assumes "ps \<noteq> []" and "renderProductList ps pg = Inr d"
  shows "pagination_children d =
    (if js_gt (totalPages pg) (Fin 1)
     then prev_control pg # page_links pg @ [next_control pg] else [])"
  by (simp add: pagination_children_def pagination_of_render [OF assms] pagination_block_def)

lemma product_cards_rice:
  "\<exists>cards. product_cards [rice] = Inr cards"
  by (simp add: product_card_def rice_def)

lemma sample_doc_render: "renderProductList [rice] pg = Inr (sample_doc pg)"
  using product_cards_rice by (auto simp: sample_doc_def renderProductList_def)

lemma shown_controls:
  assumes "ps \<noteq> []" and "renderProductList ps pg = Inr d" and "js_gt (totalPages pg) (Fin 1)"
  shows "shown_prev d = Some (prev_control pg)" and "shown_next d = Some (next_control pg)"
    and "page_window d = page_links pg"
  using assms(3)
  by (simp_all add: shown_prev_def shown_next_def page_window_def
      pagination_children_render [OF assms(1,2)] butlast_append)

lemma no_controls:
  assumes "ps \<noteq> []" and "renderProductList ps pg = Inr d" and "\<not> js_gt (totalPages pg) (Fin 1)"
  shows "shown_prev d = None" and "shown_next d = None" and "page_window d = []"
  using assms(3)
  by (simp_all add: shown_prev_def shown_next_def page_window_def
      pagination_children_render [OF assms(1,2)])

lemma sample_view_fields:
  "currentPage (sample_view a b s) = Fin a" "totalPages (sample_view a b s) = Fin b"
  "sort_of (sample_view a b s) = s"
  by (simp_all add: sample_view_def)

subsection \<open>The empty state\<close>

text \<open>
  Claim C9. For an empty list of items, whatever the rest of the page view,
  \<^verbatim>\<open>renderProductList\<close> returns the catalogue whose content is the one
  no-products block: the document has no product grid, no pagination element, no
  disabled or current indicator and no link at all.
\<close>

theorem empty_page_shows_placeholder:
  "renderProductList [] pg = Inr (catalog_page [no_products]) \<and>
   by_class ''no-products'' (catalog_page [no_products]) = [no_products] \<and>
   by_class ''products-grid'' (catalog_page [no_products]) = [] \<and>
   by_class ''pagination'' (catalog_page [no_products]) = [] \<and>
   by_class ''disabled'' (catalog_page [no_products]) = [] \<and>
   by_class ''current'' (catalog_page [no_products]) = [] \<and>
   by_tag ''a'' (catalog_page [no_products]) = []"
  by (simp add: render_empty catalog_page_def catalog_head_def catalog_header_def
      catalog_script_def no_products_def)

subsection \<open>A product without a price\<close>

lemma product_card_unpriced:
  "price p = None \<Longrightarrow> product_card p = Inl (TypeError ''toLocaleString of null'')"
  by (simp add: product_card_def)

lemma product_cards_unpriced:
  "p \<in> set ps \<Longrightarrow> price p = None \<Longrightarrow> \<exists>e. product_cards ps = Inl e"
  by (induction ps) (auto simp: product_card_unpriced split: sum.splits)

lemma render_unpriced:
  "p \<in> set ps \<Longrightarrow> price p = None \<Longrightarrow> \<exists>e. renderProductList ps pg = Inl e"
  using product_cards_unpriced [of p ps] by (auto simp: renderProductList_def)

text \<open>
  Claim C6 does not hold of the code. A row whose \<^verbatim>\<open>price\<close> is \<^verbatim>\<open>NULL\<close> makes
  \<^verbatim>\<open>renderProductList\<close> throw a \<^verbatim>\<open>TypeError\<close> instead of returning the catalogue,
  for every page view; the route catches it and answers with the error document.
\<close>

theorem unpriced_product_breaks_rendering:
  "renderProductList [unpriced] pg = Inl (TypeError ''toLocaleString of null'') \<and>
   get_root (d1_table [unpriced]) Map.empty =
     (Html (renderError fetch_failed), [TypeError ''toLocaleString of null''])"
proof -
  have r: "renderProductList [unpriced] pg = Inl (TypeError ''toLocaleString of null'')" for pg
    by (simp add: renderProductList_def product_card_def unpriced_def rice_def)
  have "order_rows (orderBy (parse_request Map.empty)) [unpriced] = Some [unpriced]"
    by (simp add: parse_request_fields param_def resolve_order_def order_rows_def)
  then have "\<exists>pg. fetch_page (d1_table [unpriced]) (parse_request Map.empty) = Inr ([unpriced], pg)"
    using fetch_page_d1_table [of "parse_request Map.empty" "[unpriced]" "[unpriced]" 20 0]
    by (simp add: parse_request_fields param_def parseInt_examples js_sub_def limit_offset_def
        in_int64_def)
  then show ?thesis
    by (auto simp: get_root_def route_try_def r)
qed

subsection \<open>Page and page size that are absent, or not numbers\<close>

text \<open>
  An absent \<^verbatim>\<open>page\<close> or \<^verbatim>\<open>limit\<close> is replaced by its default (\<^verbatim>\<open>1\<close>,
  \<^verbatim>\<open>20\<close>): the request, and with it the whole answer of the route, is the one of the
  query with the default supplied.
\<close>

lemma parse_request_absent:
  "q ''page'' = None \<Longrightarrow> parse_request (q(''page'' \<mapsto> ''1'')) = parse_request q"
  "q ''limit'' = None \<Longrightarrow> parse_request (q(''limit'' \<mapsto> ''20'')) = parse_request q"
  by (simp_all add: parse_request_def param_def)

lemma absent_parameters_take_defaults:
  "q ''page'' = None \<Longrightarrow> get_root st (q(''page'' \<mapsto> ''1'')) = get_root st q"
  "q ''limit'' = None \<Longrightarrow> get_root st (q(''limit'' \<mapsto> ''20'')) = get_root st q"
  by (simp_all add: get_root_def parse_request_absent)

text \<open>
  A parameter that is present is parsed as it is. When the page number or the page size
  comes out as \<^verbatim>\<open>NaN\<close>, so does the offset; the table refuses the bound, and the
  route answers with the error document.
\<close>

lemma js_mul_NaN: "js_mul NaN x = NaN" "js_mul x NaN = NaN"
  by (cases x; simp)+

lemma nan_offset:
  "pageNum (parse_request q) = NaN \<or> limitNum (parse_request q) = NaN \<Longrightarrow>
   offset (parse_request q) = NaN"
  by (auto simp: parse_request_fields(4) js_sub_def js_mul_NaN)

lemma nan_bound_is_refused:
  assumes "pageNum (parse_request q) = NaN \<or> limitNum (parse_request q) = NaN"
  shows "get_root (d1_table rows) q =
    (Html (renderError fetch_failed), [StoreError ''datatype mismatch''])"
proof -
  let ?r = "parse_request q"
  obtain ordered where ord: "order_rows (orderBy ?r) rows = Some ordered"
    using order_rows_resolved [of "sort_tok ?r" rows] by (auto simp: parse_request_fields(5))
  have "all_slice (d1_table rows) (orderBy ?r) (limitNum ?r) (offset ?r) =
      Inl (StoreError ''datatype mismatch'')"
    by (simp add: d1_table_def ord nan_offset [OF assms] split: jsnum.splits)
  then have "fetch_page (d1_table rows) ?r = Inl (StoreError ''datatype mismatch'')"
    by (rule fetch_page_slice_fails [rotated]) (simp add: d1_table_def)
  then show ?thesis by (rule get_root_caught)
qed

text \<open>
  Claim C5 does not hold of the code. With \<^verbatim>\<open>page=abc\<close> the page number and the
  offset bound to the slice query are \<^verbatim>\<open>NaN\<close>, not the \<open>1\<close> and \<open>0\<close> of the
  default, and with \<^verbatim>\<open>limit=abc\<close> the page size is \<^verbatim>\<open>NaN\<close>, not \<open>20\<close>; over a
  table of one row the route answers both requests with the error document, where the
  default gives the catalogue of that row.
\<close>

theorem non_numeric_parameter_is_not_replaced:
  "pageNum (parse_request [''page'' \<mapsto> ''abc'']) = NaN \<and>
   offset (parse_request [''page'' \<mapsto> ''abc'']) = NaN \<and>
   limitNum (parse_request [''limit'' \<mapsto> ''abc'']) = NaN \<and>
   pageNum (parse_request [''page'' \<mapsto> ''1'']) = Fin 1 \<and>
   offset (parse_request [''page'' \<mapsto> ''1'']) = Fin 0 \<and>
   limitNum (parse_request [''limit'' \<mapsto> ''20'']) = Fin 20 \<and>
   parse_request [''page'' \<mapsto> ''abc''] \<noteq> parse_request [''page'' \<mapsto> ''1''] \<and>
   parse_request [''limit'' \<mapsto> ''abc''] \<noteq> parse_request [''limit'' \<mapsto> ''20''] \<and>
   get_root (d1_table [rice]) [''page'' \<mapsto> ''abc''] =
     (Html (renderError fetch_failed), [StoreError ''datatype mismatch'']) \<and>
   get_root (d1_table [rice]) [''limit'' \<mapsto> ''abc''] =
     (Html (renderError fetch_failed), [StoreError ''datatype mismatch'']) \<and>
   get_root (d1_table [rice]) [''page'' \<mapsto> ''1''] = (Html (sample_doc single_page), []) \<and>
   get_root (d1_table [rice]) [''limit'' \<mapsto> ''20''] = (Html (sample_doc single_page), [])"
proof -
  have a: "pageNum (parse_request [''page'' \<mapsto> ''abc'']) = NaN"
      "offset (parse_request [''page'' \<mapsto> ''abc'']) = NaN"
      "limitNum (parse_request [''limit'' \<mapsto> ''abc'']) = NaN"
    by (simp_all add: parse_request_fields param_def parseInt_examples js_sub_def)
  have b: "pageNum (parse_request [''page'' \<mapsto> ''1'']) = Fin 1"
      "offset (parse_request [''page'' \<mapsto> ''1'']) = Fin 0"
      "limitNum (parse_request [''limit'' \<mapsto> ''20'']) = Fin 20"
    by (simp_all add: parse_request_fields param_def parseInt_examples js_sub_def)
  have c: "parse_request [''page'' \<mapsto> ''abc''] \<noteq> parse_request [''page'' \<mapsto> ''1'']"
    using a(1) b(1) by auto
  have d: "parse_request [''limit'' \<mapsto> ''abc''] \<noteq> parse_request [''limit'' \<mapsto> ''20'']"
    using a(3) b(3) by auto
  have e: "get_root (d1_table [rice]) [''page'' \<mapsto> ''abc''] =
      (Html (renderError fetch_failed), [StoreError ''datatype mismatch''])"
    by (rule nan_bound_is_refused) (simp add: a)
  have f: "get_root (d1_table [rice]) [''limit'' \<mapsto> ''abc''] =
      (Html (renderError fetch_failed), [StoreError ''datatype mismatch''])"
    by (rule nan_bound_is_refused) (simp add: a)
  have "order_rows (orderBy (parse_request Map.empty)) [rice] = Some [rice]"
    by (simp add: parse_request_fields param_def resolve_order_def order_rows_def)
  then have "fetch_page (d1_table [rice]) (parse_request Map.empty) = Inr ([rice], single_page)"
    using fetch_page_d1_table [of "parse_request Map.empty" "[rice]" "[rice]" 20 0]
    by (simp add: parse_request_fields param_def parseInt_examples js_sub_def limit_offset_def
        single_page_def in_int64_def)
  then have g: "get_root (d1_table [rice]) Map.empty = (Html (sample_doc single_page), [])"
    by (simp add: get_root_def route_try_def sample_doc_render)
  have h: "get_root (d1_table [rice]) [''page'' \<mapsto> ''1''] = (Html (sample_doc single_page), [])"
      "get_root (d1_table [rice]) [''limit'' \<mapsto> ''20''] = (Html (sample_doc single_page), [])"
    using absent_parameters_take_defaults [of Map.empty "d1_table [rice]"] g by simp_all
  show ?thesis
    by (simp only: a b e f h) (simp add: c d)
qed

subsection \<open>Previous and Next\<close>

text \<open>
  Claim C8, as amended. For a non-empty page that is rendered, with \<open>currentPage\<close>
  between \<open>1\<close> and \<open>totalPages\<close>: when there is more than one page, the first child
  of the pagination element is the disabled indicator of Previous if \<open>currentPage = 1\<close>
  and the link to \<open>currentPage - 1\<close> otherwise, and its last child is the disabled
  indicator of Next if \<open>currentPage = totalPages\<close> and the link to
  \<open>currentPage + 1\<close> otherwise; when there is one page only, the document has no
  pagination element, so neither control is rendered.
\<close>

theorem rendered_prev_next:
  assumes "ps \<noteq> []" and "renderProductList ps pg = Inr d"
    and "currentPage pg = Fin c" and "totalPages pg = Fin t"
    and "1 \<le> c" and "c \<le> t"
  shows "if t = 1 then shown_prev d = None \<and> shown_next d = None
    else shown_prev d = Some
        (if c = 1 then Elem ''span'' [(''class'', ''disabled'')] [Text prev_label]
         else Elem ''a'' [(''href'', page_href pg (Fin (c - 1)))] [Text prev_label]) \<and>
      shown_next d = Some
        (if c = t then Elem ''span'' [(''class'', ''disabled'')] [Text next_label]
         else Elem ''a'' [(''href'', page_href pg (Fin (c + 1)))] [Text next_label])"
proof (cases "t = 1")
  case True
  then have "\<not> js_gt (totalPages pg) (Fin 1)"
    by (simp add: assms(4) js_gt_def)
  then show ?thesis
    using no_controls(1,2) [OF assms(1,2)] True by simp
next
  case False
  then have gt: "js_gt (totalPages pg) (Fin 1)"
    using assms(4,5,6) by (simp add: js_gt_def)
  have p: "prev_control pg =
      (if c = 1 then Elem ''span'' [(''class'', ''disabled'')] [Text prev_label]
       else Elem ''a'' [(''href'', page_href pg (Fin (c - 1)))] [Text prev_label])"
    using assms(3,5) by (simp add: prev_control_def js_gt_def js_sub_def)
  have n: "next_control pg =
      (if c = t then Elem ''span'' [(''class'', ''disabled'')] [Text next_label]
       else Elem ''a'' [(''href'', page_href pg (Fin (c + 1)))] [Text next_label])"
    using assms(3,4,6) by (simp add: next_control_def)
  show ?thesis
    using shown_controls(1,2) [OF assms(1,2) gt] False by (simp only: p n if_False)
qed

text \<open>The first and the last of three pages, and the one page of a single-page view.\<close>

theorem rendered_prev_next_witness:
  "[rice] \<noteq> [] \<and> renderProductList [rice] (sample_view 1 3 ''price_asc'') =
       Inr (sample_doc (sample_view 1 3 ''price_asc'')) \<and>
   currentPage (sample_view 1 3 ''price_asc'') = Fin 1 \<and>
   totalPages (sample_view 1 3 ''price_asc'') = Fin 3 \<and> (1::int) \<le> 1 \<and> (1::int) \<le> 3 \<and>
   shown_prev (sample_doc (sample_view 1 3 ''price_asc'')) =
     Some (Elem ''span'' [(''class'', ''disabled'')] [Text prev_label]) \<and>
   shown_next (sample_doc (sample_view 1 3 ''price_asc'')) =
     Some (Elem ''a'' [(''href'', ''?page=2&sort=price_asc'')] [Text next_label]) \<and>
   shown_prev (sample_doc (sample_view 3 3 ''price_asc'')) =
     Some (Elem ''a'' [(''href'', ''?page=2&sort=price_asc'')] [Text prev_label]) \<and>
   shown_next (sample_doc (sample_view 3 3 ''price_asc'')) =
     Some (Elem ''span'' [(''class'', ''disabled'')] [Text next_label]) \<and>
   shown_prev (sample_doc (sample_view 1 1 ''price_asc'')) = None \<and>
   shown_next (sample_doc (sample_view 1 1 ''price_asc'')) = None"
proof -
  have first: "shown_prev (sample_doc (sample_view 1 3 ''price_asc'')) =
       Some (Elem ''span'' [(''class'', ''disabled'')] [Text prev_label]) \<and>
     shown_next (sample_doc (sample_view 1 3 ''price_asc'')) =
       Some (Elem ''a'' [(''href'', ''?page=2&sort=price_asc'')] [Text next_label])"
    using rendered_prev_next [where ps = "[rice]" and pg = "sample_view 1 3 ''price_asc''"
        and c = 1 and t = 3 and d = "sample_doc (sample_view 1 3 ''price_asc'')"]
    by (simp add: sample_doc_render sample_view_fields page_href_def digits_of.simps
        digit_char_def)
  have last: "shown_prev (sample_doc (sample_view 3 3 ''price_asc'')) =
       Some (Elem ''a'' [(''href'', ''?page=2&sort=price_asc'')] [Text prev_label]) \<and>
     shown_next (sample_doc (sample_view 3 3 ''price_asc'')) =
       Some (Elem ''span'' [(''class'', ''disabled'')] [Text next_label])"
    using rendered_prev_next [where ps = "[rice]" and pg = "sample_view 3 3 ''price_asc''"
        and c = 3 and t = 3 and d = "sample_doc (sample_view 3 3 ''price_asc'')"]
    by (simp add: sample_doc_render sample_view_fields page_href_def digits_of.simps
        digit_char_def)
  have only: "shown_prev (sample_doc (sample_view 1 1 ''price_asc'')) = None \<and>
     shown_next (sample_doc (sample_view 1 1 ''price_asc'')) = None"
    using rendered_prev_next [where ps = "[rice]" and pg = "sample_view 1 1 ''price_asc''"
        and c = 1 and t = 1 and d = "sample_doc (sample_view 1 1 ''price_asc'')"]
    by (simp add: sample_doc_render sample_view_fields)
  show ?thesis
    using first last only by (simp add: sample_doc_render sample_view_fields)
qed

text \<open>
  Claim C8 as stated fails on a catalogue of a single page: the route answers one row
  in pages of twenty with a product grid and no pagination element, so on this first and
  last page there is no Previous or Next control and no disabled indicator at all.
\<close>

theorem single_page_has_no_controls:
  "(case fst (get_root (d1_table [rice]) Map.empty) of
      Html d \<Rightarrow> by_class ''products-grid'' d \<noteq> [] \<and> shown_prev d = None \<and> shown_next d = None \<and>
        by_class ''disabled'' d = []
    | Uncaught e \<Rightarrow> False)"
proof -
  have "order_rows (orderBy (parse_request Map.empty)) [rice] = Some [rice]"
    by (simp add: parse_request_fields param_def resolve_order_def order_rows_def)
  then have f: "fetch_page (d1_table [rice]) (parse_request Map.empty) = Inr ([rice], single_page)"
    using fetch_page_d1_table [of "parse_request Map.empty" "[rice]" "[rice]" 20 0]
    by (simp add: parse_request_fields param_def parseInt_examples js_sub_def limit_offset_def
        single_page_def in_int64_def)
  have g: "fst (get_root (d1_table [rice]) Map.empty) = Html (sample_doc single_page)"
    by (simp add: get_root_def route_try_def f sample_doc_render)
  have "\<not> js_gt (totalPages single_page) (Fin 1)"
    by (simp add: single_page_def js_gt_def)
  note none = no_controls [OF _ sample_doc_render this]
  have d: "by_class ''disabled'' (sample_doc single_page) = []"
    by (simp add: sample_doc_def renderProductList_def product_card_def rice_def truthy_def
        catalog_page_def catalog_head_def catalog_header_def catalog_script_def controls_def
        sort_option_def pagination_block_def single_page_def js_gt_def)
  have e: "by_class ''products-grid'' (sample_doc single_page) \<noteq> []"
    by (simp add: sample_doc_def renderProductList_def product_card_def rice_def truthy_def
        catalog_page_def catalog_head_def catalog_header_def catalog_script_def controls_def
        sort_option_def pagination_block_def single_page_def js_gt_def)
  show ?thesis
    by (simp add: g none d e)
qed

subsection \<open>The page-link window\<close>

text \<open>
  The callback of lines 320 to 337, taken alone, yields the window of the spec for every
  \<open>totalPages \<ge> 1\<close>; line 312 decides whether it is rendered.
\<close>

lemma map_upt_upto: "map (\<lambda>i. f (lo + int i)) [0..<n] = map f [lo .. lo + int n - 1]"
proof (induction n)
  case 0
  then show ?case by simp
next
  case (Suc n)
  have "[lo .. lo + int (Suc n) - 1] = [lo .. lo + int n - 1] @ [lo + int n]"
    using upto_rec2 [of lo "lo + int n"] by simp
  with Suc show ?case by simp
qed

lemma page_links_window:
  assumes "currentPage pg = Fin c" and "totalPages pg = Fin t" and "1 \<le> t"
  shows "page_links pg = map (\<lambda>n. page_entry pg (Fin n)) (spec_window c t)"
proof -
  have len: "array_length (js_min (Fin 5) (Fin t)) = nat (min 5 t)"
    by (simp add: js_min_def array_length_def min_def)
  consider (small) "t \<le> 5" | (head) "5 < t" "c \<le> 3" | (tail) "5 < t" "3 < c" "t - 2 \<le> c"
    | (mid) "5 < t" "3 < c" "c < t - 2"
    by linarith
  then show ?thesis
  proof cases
    case small
    then have "page_links pg = map (\<lambda>i. page_entry pg (Fin (1 + int i))) [0..<nat t]"
      by (simp add: page_links_def page_link_def page_number_def assms len js_le_def js_eq_def
          add.commute min_def)
    also have "\<dots> = map (\<lambda>n. page_entry pg (Fin n)) [1 .. 1 + int (nat t) - 1]"
      by (rule map_upt_upto)
    finally show ?thesis using small assms(3) by (simp add: spec_window_def)
  next
    case head
    then have "page_links pg = map (\<lambda>i. page_entry pg (Fin (1 + int i))) [0..<5]"
      by (simp add: page_links_def page_link_def page_number_def assms len js_le_def js_eq_def
          add.commute min_def)
    also have "\<dots> = map (\<lambda>n. page_entry pg (Fin n)) [1 .. 1 + int 5 - 1]"
      by (rule map_upt_upto)
    finally show ?thesis using head by (simp add: spec_window_def)
  next
    case tail
    then have "page_links pg = map (\<lambda>i. page_entry pg (Fin ((t - 4) + int i))) [0..<5]"
      by (simp add: page_links_def page_link_def page_number_def assms len js_le_def js_eq_def
          js_ge_def js_sub_def min_def)
    also have "\<dots> = map (\<lambda>n. page_entry pg (Fin n)) [t - 4 .. (t - 4) + int 5 - 1]"
      by (rule map_upt_upto)
    finally show ?thesis using tail by (simp add: spec_window_def)
  next
    case mid
    then have "page_links pg = map (\<lambda>i. page_entry pg (Fin ((c - 2) + int i))) [0..<5]"
      by (simp add: page_links_def page_link_def page_number_def assms len js_le_def js_eq_def
          js_ge_def js_sub_def min_def)
    also have "\<dots> = map (\<lambda>n. page_entry pg (Fin n)) [c - 2 .. (c - 2) + int 5 - 1]"
      by (rule map_upt_upto)
    finally show ?thesis using mid by (simp add: spec_window_def add.commute)
  qed
qed

lemma length_spec_window: "length (spec_window c t) \<le> 5"
  by (auto simp: spec_window_def)

text \<open>
  Claim C2, as amended. For a non-empty page that is rendered, with \<open>totalPages \<ge> 1\<close>
  and \<open>currentPage\<close> between \<open>1\<close> and \<open>totalPages\<close>: when \<open>totalPages \<ge> 2\<close> the
  entries between Previous and Next are those of the pages of the window of the spec, in
  order (the current page as the indicator, every other page as a link); when
  \<open>totalPages = 1\<close> no page entry is rendered. There are at most five entries.
\<close>

theorem rendered_page_window:
  assumes "ps \<noteq> []" and "renderProductList ps pg = Inr d"
    and "currentPage pg = Fin c" and "totalPages pg = Fin t"
    and "1 \<le> t" and "1 \<le> c" and "c \<le> t"
  shows "page_window d =
      (if t = 1 then []
       else map (\<lambda>n. if n = c
                    then Elem ''span'' [(''class'', ''current'')] [Text (js_string (Fin n))]
                    else Elem ''a'' [(''href'', page_href pg (Fin n))] [Text (js_string (Fin n))])
              (spec_window c t)) \<and>
    length (page_window d) \<le> 5"
proof (cases "t = 1")
  case True
  then have "\<not> js_gt (totalPages pg) (Fin 1)"
    by (simp add: assms(4) js_gt_def)
  then show ?thesis
    using no_controls(3) [OF assms(1,2)] True by simp
next
  case False
  then have gt: "js_gt (totalPages pg) (Fin 1)"
    using assms(4,5) by (simp add: js_gt_def)
  have w: "page_window d = map (\<lambda>n. page_entry pg (Fin n)) (spec_window c t)"
    using shown_controls(3) [OF assms(1,2) gt] page_links_window [OF assms(3,4,5)] by simp
  have e: "page_entry pg (Fin n) =
      (if n = c then Elem ''span'' [(''class'', ''current'')] [Text (js_string (Fin n))]
       else Elem ''a'' [(''href'', page_href pg (Fin n))] [Text (js_string (Fin n))])" for n
    by (simp add: page_entry_def js_eq_def assms(3))
  show ?thesis
    using False by (simp only: w e length_map length_spec_window if_False)
qed

text \<open>Page 7 of 12: the pages 5 to 9. Page 1 of 1: nothing.\<close>

theorem rendered_page_window_witness:
  "[rice] \<noteq> [] \<and>
   renderProductList [rice] (sample_view 7 12 ''price_asc'') =
     Inr (sample_doc (sample_view 7 12 ''price_asc'')) \<and>
   currentPage (sample_view 7 12 ''price_asc'') = Fin 7 \<and>
   totalPages (sample_view 7 12 ''price_asc'') = Fin 12 \<and>
   (1::int) \<le> 12 \<and> (1::int) \<le> 7 \<and> (7::int) \<le> 12 \<and>
   page_window (sample_doc (sample_view 7 12 ''price_asc'')) =
     [Elem ''a'' [(''href'', ''?page=5&sort=price_asc'')] [Text ''5''],
      Elem ''a'' [(''href'', ''?page=6&sort=price_asc'')] [Text ''6''],
      Elem ''span'' [(''class'', ''current'')] [Text ''7''],
      Elem ''a'' [(''href'', ''?page=8&sort=price_asc'')] [Text ''8''],
      Elem ''a'' [(''href'', ''?page=9&sort=price_asc'')] [Text ''9'']] \<and>
   page_window (sample_doc (sample_view 1 1 ''price_asc'')) = []"
proof -
  have w: "spec_window 7 12 = [5, 6, 7, 8, 9]"
    by (simp add: spec_window_def upto_rec1)
  have mid: "page_window (sample_doc (sample_view 7 12 ''price_asc'')) =
     [Elem ''a'' [(''href'', ''?page=5&sort=price_asc'')] [Text ''5''],
      Elem ''a'' [(''href'', ''?page=6&sort=price_asc'')] [Text ''6''],
      Elem ''span'' [(''class'', ''current'')] [Text ''7''],
      Elem ''a'' [(''href'', ''?page=8&sort=price_asc'')] [Text ''8''],
      Elem ''a'' [(''href'', ''?page=9&sort=price_asc'')] [Text ''9'']]"
    using rendered_page_window [where ps = "[rice]" and pg = "sample_view 7 12 ''price_asc''"
        and c = 7 and t = 12 and d = "sample_doc (sample_view 7 12 ''price_asc'')"]
    by (simp add: sample_doc_render sample_view_fields w page_href_def digits_of.simps
        digit_char_def)
  have only: "page_window (sample_doc (sample_view 1 1 ''price_asc'')) = []"
    using rendered_page_window [where ps = "[rice]" and pg = "sample_view 1 1 ''price_asc''"
        and c = 1 and t = 1 and d = "sample_doc (sample_view 1 1 ''price_asc'')"]
    by (simp add: sample_doc_render sample_view_fields)
  show ?thesis
    using mid only by (simp add: sample_doc_render sample_view_fields)
qed

text \<open>
  Claim C2 as stated fails for \<open>totalPages = 1\<close>: the window of the spec is page 1,
  and the catalogue rendered for page 1 of 1 shows no page entry.
\<close>

theorem single_page_has_no_window:
  "(case renderProductList [rice] single_page of
      Inl e \<Rightarrow> False
    | Inr d \<Rightarrow> page_window d = [] \<and> by_class ''current'' d = []) \<and>
   currentPage single_page = Fin 1 \<and> totalPages single_page = Fin 1 \<and>
   spec_window 1 1 = [1]"
proof -
  have "\<not> js_gt (totalPages single_page) (Fin 1)"
    by (simp add: single_page_def js_gt_def)
  note none = no_controls(3) [OF _ sample_doc_render this]
  have c: "by_class ''current'' (sample_doc single_page) = []"
    by (simp add: sample_doc_def renderProductList_def product_card_def rice_def truthy_def
        catalog_page_def catalog_head_def catalog_header_def catalog_script_def controls_def
        sort_option_def pagination_block_def single_page_def js_gt_def)
  have w: "spec_window 1 1 = [1]"
    by (simp add: spec_window_def)
  show ?thesis
    by (simp add: sample_doc_render none c w) (simp add: single_page_def)
qed

subsection \<open>What the navigation links carry\<close>

lemma digit_char_not_amp: "digit_char d \<noteq> CHR ''&''"
  using digit_char_decimal [of d] by auto

lemma digits_of_no_amp: "CHR ''&'' \<notin> set (digits_of n)"
proof (induction n rule: digits_of.induct)
  case (1 n)
  show ?case
  proof (cases "n < 10")
    case True
    then show ?thesis
      using digit_char_not_amp [of n] by (subst digits_of.simps) auto
  next
    case False
    then show ?thesis
      using 1 digit_char_not_amp [of "n mod 10"] by (subst digits_of.simps) auto
  qed
qed

lemma js_string_no_amp: "CHR ''&'' \<notin> set (js_string x)"
  by (cases x) (simp_all add: digits_of_no_amp)

lemma split_on_absent: "c \<notin> set s \<Longrightarrow> split_on c s = [s]"
  by (induction s) auto

lemma split_on_first: "c \<notin> set a \<Longrightarrow> split_on c (a @ c # b) = a # split_on c b"
  by (induction a) auto

lemma parse_page_href:
  assumes "CHR ''&'' \<notin> set (sort_of pg)"
  shows "parse_query_string (page_href pg x) = [(''page'', js_string x), (''sort'', sort_of pg)]"
proof -
  have "split_on (CHR ''&'') ((''page='' @ js_string x) @ CHR ''&'' # (''sort='' @ sort_of pg)) =
      (''page='' @ js_string x) # split_on (CHR ''&'') (''sort='' @ sort_of pg)"
    by (rule split_on_first) (simp add: js_string_no_amp)
  moreover have "split_on (CHR ''&'') (''sort='' @ sort_of pg) = [''sort='' @ sort_of pg]"
    by (rule split_on_absent) (simp add: assms)
  ultimately show ?thesis
    by (simp add: parse_query_string_def page_href_def key_value_def)
qed

lemma follow_page_href:
  assumes "CHR ''&'' \<notin> set (sort_of pg)"
  shows "follow_link (page_href pg x) ''limit'' = None"
    and "limitNum (parse_request (follow_link (page_href pg x))) = Fin 20"
  by (simp_all add: follow_link_def parse_page_href [OF assms] parse_request_fields param_def
      parseInt_examples)

lemma links_of_controls:
  "a \<in> set (by_tag ''a'' (prev_control pg)) \<Longrightarrow> \<exists>x. attr ''href'' a = Some (page_href pg x)"
  "a \<in> set (by_tag ''a'' (next_control pg)) \<Longrightarrow> \<exists>x. attr ''href'' a = Some (page_href pg x)"
  "a \<in> set (by_tag ''a'' (page_entry pg n)) \<Longrightarrow> \<exists>x. attr ''href'' a = Some (page_href pg x)"
  by (auto simp: prev_control_def next_control_def page_entry_def split: if_splits)

lemma links_of_pagination_block:
  assumes "a \<in> set (concat (map (by_tag ''a'') (pagination_block pg)))"
  shows "\<exists>x. attr ''href'' a = Some (page_href pg x)"
  using assms
  by (auto simp: pagination_block_def page_links_def page_link_def links_of_controls
      split: if_splits)

lemma nav_links_empty: "nav_links (catalog_page [no_products]) = []"
  by (simp add: nav_links_def by_class_catalog_page no_products_def)

lemma nav_links_nonempty:
  "ps \<noteq> [] \<Longrightarrow> renderProductList ps pg = Inr d \<Longrightarrow>
   nav_links d = concat (map (by_tag ''a'') (pagination_block pg))"
  by (simp add: nav_links_def pagination_of_render)

lemma nav_links_render:
  assumes "renderProductList ps pg = Inr d" and "a \<in> set (nav_links d)"
  shows "\<exists>x. attr ''href'' a = Some (page_href pg x)"
proof (cases "ps = []")
  case True
  then have "d = catalog_page [no_products]"
    using assms(1) by (simp add: render_empty)
  with assms(2) show ?thesis by (simp add: nav_links_empty)
next
  case False
  then have "nav_links d = concat (map (by_tag ''a'') (pagination_block pg))"
    using assms(1) by (rule nav_links_nonempty)
  with assms(2) show ?thesis by (simp add: links_of_pagination_block)
qed

text \<open>
  Claim C10, as amended. When the sort token holds no \<^verbatim>\<open>&\<close>, every navigation link
  of a rendered catalogue carries the parameters \<^verbatim>\<open>page\<close> and \<^verbatim>\<open>sort\<close> and no
  other: the request made by following it has no \<^verbatim>\<open>limit\<close>, so its page size is the
  default 20, whatever the page size of the request that was rendered.
\<close>

theorem nav_links_carry_page_and_sort:
  assumes "CHR ''&'' \<notin> set (sort_of pg)"
    and "renderProductList ps pg = Inr d" and "a \<in> set (nav_links d)"
  shows "\<exists>h. attr ''href'' a = Some h \<and>
    map fst (parse_query_string h) = [''page'', ''sort''] \<and>
    follow_link h ''limit'' = None \<and>
    limitNum (parse_request (follow_link h)) = Fin 20"
proof -
  from assms(2,3) obtain x where "attr ''href'' a = Some (page_href pg x)"
    using nav_links_render by blast
  then show ?thesis
    using parse_page_href [OF assms(1), of x] follow_page_href [OF assms(1), of x] by simp
qed

lemma nav_links_sample:
  "nav_links (sample_doc pg) = concat (map (by_tag ''a'') (pagination_block pg))"
  by (rule nav_links_nonempty [OF _ sample_doc_render]) simp

text \<open>The link Next of page 1 of 3.\<close>

theorem nav_links_carry_page_and_sort_witness:
  "CHR ''&'' \<notin> set (sort_of (sample_view 1 3 ''price_asc'')) \<and>
   renderProductList [rice] (sample_view 1 3 ''price_asc'') =
     Inr (sample_doc (sample_view 1 3 ''price_asc'')) \<and>
   Elem ''a'' [(''href'', ''?page=2&sort=price_asc'')] [Text next_label]
     \<in> set (nav_links (sample_doc (sample_view 1 3 ''price_asc''))) \<and>
   map fst (parse_query_string ''?page=2&sort=price_asc'') = [''page'', ''sort''] \<and>
   follow_link ''?page=2&sort=price_asc'' ''limit'' = None \<and>
   limitNum (parse_request (follow_link ''?page=2&sort=price_asc'')) = Fin 20"
proof -
  let ?v = "sample_view 1 3 ''price_asc''"
  let ?a = "Elem ''a'' [(''href'', ''?page=2&sort=price_asc'')] [Text next_label]"
  have amp: "CHR ''&'' \<notin> set (sort_of ?v)"
    by (simp add: sample_view_fields)
  have mem: "?a \<in> set (nav_links (sample_doc ?v))"
    by (simp add: nav_links_sample pagination_block_def next_control_def sample_view_fields
        js_gt_def page_href_def digits_of.simps digit_char_def)
  show ?thesis
    using nav_links_carry_page_and_sort [OF amp sample_doc_render mem] amp mem
    by (simp add: sample_doc_render)
qed

text \<open>
  Claim C10 as stated fails: the sort token is written into the link as it is, so for
  the request \<^verbatim>\<open>sort=x%26limit%3D50&limit=50\<close> (the token \<^verbatim>\<open>x&limit=50\<close>) the link
  Next carries a parameter \<^verbatim>\<open>limit\<close>, and following it keeps the page size 50.
\<close>

theorem sort_token_injects_limit:
  "sort_tok (parse_request [''sort'' \<mapsto> ''x&limit=50'', ''limit'' \<mapsto> ''50'']) = sort_of injected \<and>
   limitNum (parse_request [''sort'' \<mapsto> ''x&limit=50'', ''limit'' \<mapsto> ''50'']) = limit_of injected \<and>
   limit_of injected = Fin 50 \<and>
   renderProductList [rice] injected = Inr (sample_doc injected) \<and>
   Elem ''a'' [(''href'', ''?page=2&sort=x&limit=50'')] [Text next_label]
     \<in> set (nav_links (sample_doc injected)) \<and>
   map fst (parse_query_string ''?page=2&sort=x&limit=50'') = [''page'', ''sort'', ''limit''] \<and>
   limitNum (parse_request (follow_link ''?page=2&sort=x&limit=50'')) = Fin 50"
proof -
  have r: "sort_tok (parse_request [''sort'' \<mapsto> ''x&limit=50'', ''limit'' \<mapsto> ''50'']) = sort_of injected"
      "limitNum (parse_request [''sort'' \<mapsto> ''x&limit=50'', ''limit'' \<mapsto> ''50'']) = limit_of injected"
      "limit_of injected = Fin 50"
    by (simp_all add: parse_request_fields param_def parseInt_eval injected_def)
  have mem: "Elem ''a'' [(''href'', ''?page=2&sort=x&limit=50'')] [Text next_label]
      \<in> set (nav_links (sample_doc injected))"
    by (simp add: nav_links_sample pagination_block_def next_control_def injected_def
        js_gt_def page_href_def digits_of.simps digit_char_def)
  have q: "parse_query_string ''?page=2&sort=x&limit=50'' =
      [(''page'', ''2''), (''sort'', ''x''), (''limit'', ''50'')]"
    by (simp add: parse_query_string_def key_value_def)
  have f: "limitNum (parse_request (follow_link ''?page=2&sort=x&limit=50'')) = Fin 50"
    by (simp add: follow_link_def q parse_request_fields param_def parseInt_eval)
  show ?thesis
    by (simp only: r mem q f sample_doc_render) simp
qed

end
